theory Spec2Isabelle
  imports Complex_Main "HOL-Library.Sublist"
begin

section \<open>JavaScript values used by the package\<close>

text \<open>
  Strings are character lists. The string builtins the package calls
  (\<^verbatim>\<open>startsWith\<close>, \<^verbatim>\<open>replace\<close> with a string pattern, \<^verbatim>\<open>split\<close>,
  \<^verbatim>\<open>toLowerCase\<close>, \<^verbatim>\<open>padStart\<close>, \<^verbatim>\<open>BigInt\<close>, \<^verbatim>\<open>toString(16)\<close>) are given
  on ASCII text: \<^verbatim>\<open>toLowerCase\<close> maps \<^verbatim>\<open>A\<close>..\<^verbatim>\<open>Z\<close> and leaves every other character
  alone, and the white space \<^verbatim>\<open>BigInt\<close> trims is tab, line feed, vertical tab, form
  feed, carriage return and space. Numbers that are integers in every run (epoch
  times, the time to live) are \<open>int\<close>; a \<^verbatim>\<open>bigint\<close> is \<open>int\<close>.
\<close>

datatype exn =
  ChainCallError
  | FetchError
  | ParseError
  | DecodeError
  | StoreError
  | SyntaxError
  | TypeError

definition startsWith :: "string \<Rightarrow> string \<Rightarrow> bool" where
  "startsWith s p = prefix p s"

text \<open>
  \<^verbatim>\<open>s.replace(pat, rep)\<close> with a string pattern: the first occurrence only. The
  replacements the package passes (the empty string, a padded hexadecimal number)
  hold no \<^verbatim>\<open>$\<close>, so no substitution pattern is expanded.
\<close>

fun js_replace :: "string \<Rightarrow> string \<Rightarrow> string \<Rightarrow> string" where
  "js_replace [] pat rep = (if pat = [] then rep else [])"
| "js_replace (c # cs) pat rep =
     (if prefix pat (c # cs) then rep @ drop (length pat) (c # cs)
      else c # js_replace cs pat rep)"

text \<open>\<^verbatim>\<open>s.split(sep)\<close> for a separator of one character.\<close>

fun js_split :: "string \<Rightarrow> char \<Rightarrow> string list" where
  "js_split [] sep = [[]]"
| "js_split (c # cs) sep =
     (if c = sep then [] # js_split cs sep
      else (case js_split cs sep of
              [] \<Rightarrow> [[c]]
            | seg # segs \<Rightarrow> (c # seg) # segs))"

text \<open>\<^verbatim>\<open>xs[i]\<close>: \<^verbatim>\<open>undefined\<close> (here \<open>None\<close>) out of range.\<close>

fun js_index :: "'a list \<Rightarrow> nat \<Rightarrow> 'a option" where
  "js_index [] i = None"
| "js_index (x # xs) 0 = Some x"
| "js_index (x # xs) (Suc i) = js_index xs i"

definition lower_char :: "char \<Rightarrow> char" where
  "lower_char c =
     (case map_of (zip ''ABCDEFGHIJKLMNOPQRSTUVWXYZ'' ''abcdefghijklmnopqrstuvwxyz'') c of
        None \<Rightarrow> c
      | Some l \<Rightarrow> l)"

definition toLowerCase :: "string \<Rightarrow> string" where
  "toLowerCase s = map lower_char s"

definition padStart :: "string \<Rightarrow> nat \<Rightarrow> char \<Rightarrow> string" where
  "padStart s n c = replicate (n - length s) c @ s"

subsection \<open>\<^verbatim>\<open>BigInt(string)\<close> and \<^verbatim>\<open>bigint.toString(16)\<close>\<close>

definition is_space :: "char \<Rightarrow> bool" where
  "is_space c = (c \<in> set [CHR 0x09, CHR 0x0A, CHR 0x0B, CHR 0x0C, CHR 0x0D, CHR '' ''])"

definition trim :: "string \<Rightarrow> string" where
  "trim s = rev (dropWhile is_space (rev (dropWhile is_space s)))"

definition digit_value :: "char \<Rightarrow> nat option" where
  "digit_value c =
     map_of (zip ''0123456789abcdefABCDEF''
       [0, 1, 2, 3, 4, 5, 6, 7, 8, 9, 10, 11, 12, 13, 14, 15, 10, 11, 12, 13, 14, 15]) c"

definition is_digit :: "nat \<Rightarrow> char \<Rightarrow> bool" where
  "is_digit radix c = (case digit_value c of None \<Rightarrow> False | Some d \<Rightarrow> d < radix)"

definition digits_value :: "nat \<Rightarrow> string \<Rightarrow> nat" where
  "digits_value radix ds = foldl (\<lambda>acc c. acc * radix + (case digit_value c of None \<Rightarrow> 0 | Some d \<Rightarrow> d)) 0 ds"

text \<open>A nonempty run of digits of the radix, or a \<^verbatim>\<open>SyntaxError\<close>.\<close>

definition parse_digits :: "nat \<Rightarrow> string \<Rightarrow> exn + int" where
  "parse_digits radix ds =
     (if ds \<noteq> [] \<and> list_all (is_digit radix) ds then Inr (int (digits_value radix ds))
      else Inl SyntaxError)"

text \<open>
  \<^verbatim>\<open>BigInt(s)\<close>: white space is trimmed; the empty string is \<^verbatim>\<open>0n\<close>; a prefix
  \<^verbatim>\<open>0x\<close>, \<^verbatim>\<open>0o\<close> or \<^verbatim>\<open>0b\<close> (either case, no sign) selects the radix; otherwise
  decimal digits with an optional sign; anything else throws a \<^verbatim>\<open>SyntaxError\<close>.
\<close>

definition BigInt :: "string \<Rightarrow> exn + int" where
  "BigInt s =
     (case trim s of
        [] \<Rightarrow> Inr 0
      | [c] \<Rightarrow> parse_digits 10 [c]
      | c1 # c2 # cs \<Rightarrow>
          if c1 = CHR ''0'' \<and> (c2 = CHR ''x'' \<or> c2 = CHR ''X'') then parse_digits 16 cs
          else if c1 = CHR ''0'' \<and> (c2 = CHR ''o'' \<or> c2 = CHR ''O'') then parse_digits 8 cs
          else if c1 = CHR ''0'' \<and> (c2 = CHR ''b'' \<or> c2 = CHR ''B'') then parse_digits 2 cs
          else if c1 = CHR ''+'' then parse_digits 10 (c2 # cs)
          else if c1 = CHR ''-'' then map_sum id uminus (parse_digits 10 (c2 # cs))
          else parse_digits 10 (c1 # c2 # cs))"

fun hex_of_nat :: "nat \<Rightarrow> string" where
  "hex_of_nat n =
     (if n < 16 then [''0123456789abcdef'' ! n]
      else hex_of_nat (n div 16) @ [''0123456789abcdef'' ! (n mod 16)])"

declare hex_of_nat.simps [simp del]

text \<open>\<^verbatim>\<open>n.toString(16)\<close> of a \<^verbatim>\<open>bigint\<close>: a minus sign, then the magnitude.\<close>

definition toString16 :: "int \<Rightarrow> string" where
  "toString16 n = (if n < 0 then CHR ''-'' # hex_of_nat (nat (- n)) else hex_of_nat (nat n))"

section \<open>URI resolution (\<^verbatim>\<open>src/uri.ts\<close>)\<close>

definition DEFAULT_IPFS_GATEWAY :: string where
  "DEFAULT_IPFS_GATEWAY = ''https://ipfs.io/ipfs/''"

definition DEFAULT_ARWEAVE_GATEWAY :: string where
  "DEFAULT_ARWEAVE_GATEWAY = ''https://arweave.net/''"

record ResolveUriOptions =
  ipfsGateway :: "string option"
  arweaveGateway :: "string option"

text \<open>\<^verbatim>\<open>v || d\<close> on an optional string: \<^verbatim>\<open>undefined\<close> and the empty string give \<open>d\<close>.\<close>

definition or_default :: "string option \<Rightarrow> string \<Rightarrow> string" where
  "or_default v d = (case v of None \<Rightarrow> d | Some s \<Rightarrow> if s = [] then d else s)"

definition ipfs_gateway :: "ResolveUriOptions option \<Rightarrow> string" where
  "ipfs_gateway options = or_default (Option.bind options ipfsGateway) DEFAULT_IPFS_GATEWAY"

definition arweave_gateway :: "ResolveUriOptions option \<Rightarrow> string" where
  "arweave_gateway options = or_default (Option.bind options arweaveGateway) DEFAULT_ARWEAVE_GATEWAY"

definition resolveUri :: "string option \<Rightarrow> ResolveUriOptions option \<Rightarrow> string" where
  "resolveUri uri options =
     (case uri of
        None \<Rightarrow> []
      | Some u \<Rightarrow>
          if u = [] then []
          else
            let ipfs = ipfs_gateway options;
                ar = arweave_gateway options
            in if startsWith u ''data:'' then u
               else if startsWith u ''ipfs://'' then ipfs @ js_replace u ''ipfs://'' []
               else if startsWith u ''ar://'' then ar @ js_replace u ''ar://'' []
               else if startsWith u ''Qm'' \<or> startsWith u ''baf'' then ipfs @ u
               else u)"

section \<open>JSON documents\<close>

text \<open>
  The value \<^verbatim>\<open>JSON.parse\<close> returns. A number is never inspected by the package; it
  is kept as a rational.
\<close>

datatype json =
  JNull
  | JBool bool
  | JNum rat
  | JStr string
  | JArr "json list"
  | JObj "(string \<times> json) list"

text \<open>
  \<^verbatim>\<open>v.key\<close> for the keys the package reads (\<^verbatim>\<open>name\<close>, \<^verbatim>\<open>symbol\<close>,
  \<^verbatim>\<open>description\<close>, \<^verbatim>\<open>image\<close>, \<^verbatim>\<open>animation_url\<close>), which no prototype of a parsed
  value defines: a \<^verbatim>\<open>TypeError\<close> on \<^verbatim>\<open>null\<close>, the member of an object, and
  \<^verbatim>\<open>undefined\<close> (\<open>None\<close>) otherwise.
\<close>

definition get_prop :: "json \<Rightarrow> string \<Rightarrow> exn + json option" where
  "get_prop v k =
     (case v of
        JNull \<Rightarrow> Inl TypeError
      | JObj kvs \<Rightarrow> Inr (map_of kvs k)
      | _ \<Rightarrow> Inr None)"

text \<open>
  A nullable JavaScript value is a \<open>json option\<close> whose \<open>None\<close> stands for both
  \<^verbatim>\<open>null\<close> and \<^verbatim>\<open>undefined\<close>; \<^verbatim>\<open>v ?? null\<close> is \<open>nullish\<close>.
\<close>

definition nullish :: "json option \<Rightarrow> json option" where
  "nullish v = (case v of None \<Rightarrow> None | Some j \<Rightarrow> if j = JNull then None else Some j)"

definition to_nullable :: "json \<Rightarrow> json option" where
  "to_nullable j = nullish (Some j)"

text \<open>\<^verbatim>\<open>d?.key\<close> on a nullable value.\<close>

definition opt_prop :: "json option \<Rightarrow> string \<Rightarrow> exn + json option" where
  "opt_prop d k = (case d of None \<Rightarrow> Inr None | Some v \<Rightarrow> get_prop v k)"

text \<open>The string a missing argument is coerced to.\<close>

definition to_string :: "string option \<Rightarrow> string" where
  "to_string v = (case v of None \<Rightarrow> ''undefined'' | Some s \<Rightarrow> s)"

text \<open>Truthiness of a nullable string: \<^verbatim>\<open>null\<close> and the empty string are falsy.\<close>

definition truthy :: "string option \<Rightarrow> bool" where
  "truthy v = (case v of None \<Rightarrow> False | Some s \<Rightarrow> s \<noteq> [])"

definition sum_bind :: "exn + 'a \<Rightarrow> ('a \<Rightarrow> exn + 'b) \<Rightarrow> exn + 'b" where
  "sum_bind r f = (case r of Inl e \<Rightarrow> Inl e | Inr x \<Rightarrow> f x)"

section \<open>Records of the store (\<^verbatim>\<open>src/types.ts\<close>, \<^verbatim>\<open>src/schema.ts\<close>)\<close>

datatype TokenStandard = Erc721 | Erc1155 | Unknown

text \<open>
  The two row types. Their fields carry the prefix \<open>t_\<close> (token) and \<open>c_\<close>
  (collection), since both tables name their columns alike. The columns typed
  \<^verbatim>\<open>string | null\<close> that are filled from a metadata document hold whatever value the
  document has under the key (the source casts without a check), so they are
  nullable JSON values here. The store is taken to give back the values it was
  given.
\<close>

record ArtifactToken =
  t_collection :: string
  t_tokenId :: string
  t_tokenStandard :: TokenStandard
  t_tokenUri :: "string option"
  t_name :: "json option"
  t_description :: "json option"
  t_image :: "json option"
  t_animationUrl :: "json option"
  t_data :: "json option"
  t_updatedAt :: int

record ArtifactCollection =
  c_collection :: string
  c_tokenStandard :: TokenStandard
  c_name :: "json option"
  c_symbol :: "json option"
  c_owner :: "string option"
  c_contractUri :: "string option"
  c_description :: "json option"
  c_image :: "json option"
  c_data :: "json option"
  c_updatedAt :: int

section \<open>The collaborators and the world\<close>

text \<open>
  A contract read is an address, a function name and the arguments. The answers of
  the chain client are typed by the ABI the call is made with: \<^verbatim>\<open>supportsInterface\<close>
  answers a boolean, every other function a string; each call may fail. The answer
  to a call is fixed by the call (the chain does not change while a request is
  handled), and so is the answer of \<^verbatim>\<open>fetch\<close> to a URL.
\<close>

datatype arg = Bytes4 string | Uint256 int

datatype contract_call = ReadContract string string "arg list"

record response =
  ok :: bool
  status :: nat
  body_json :: "exn + json"

text \<open>
  The platform: \<^verbatim>\<open>fetch\<close>, \<^verbatim>\<open>atob\<close>, \<^verbatim>\<open>decodeURIComponent\<close>, \<^verbatim>\<open>JSON.parse\<close> and
  the clock. \<open>Date_now pf k\<close> is what \<^verbatim>\<open>Date.now()\<close> returns after \<open>k\<close> calls to
  collaborators have been made.
\<close>

record platform =
  fetch :: "string \<Rightarrow> exn + response"
  atob :: "string \<Rightarrow> exn + string"
  decodeURIComponent :: "string \<Rightarrow> exn + string"
  JSON_parse :: "string \<Rightarrow> exn + json"
  Date_now :: "nat \<Rightarrow> int"

text \<open>
  \<^verbatim>\<open>ArtifactPluginConfig\<close>. The client is its two typed answer functions. Of the
  database handle the configuration says how it fails: \<open>db_fails cfg k\<close> holds when a
  statement issued after \<open>k\<close> calls to collaborators throws.
\<close>

record ArtifactPluginConfig =
  client_bool :: "contract_call \<Rightarrow> exn + bool"
  client_string :: "contract_call \<Rightarrow> exn + string"
  db_fails :: "nat \<Rightarrow> bool"
  config_cacheTtl :: "int option"
  config_ipfsGateway :: "string option"
  config_arweaveGateway :: "string option"

datatype event =
  ChainRead contract_call
  | HttpGet string
  | DbSelectToken string string
  | DbUpsertToken ArtifactToken
  | DbSelectCollection string
  | DbUpsertCollection ArtifactCollection

text \<open>The two tables and the calls made to collaborators so far, oldest first.\<close>

record world =
  tokens :: "ArtifactToken list"
  collections :: "ArtifactCollection list"
  trace :: "event list"

type_synonym 'a io = "world \<Rightarrow> (exn + 'a) \<times> world"

definition io_return :: "'a \<Rightarrow> 'a io" where
  "io_return x w = (Inr x, w)"

definition io_throw :: "exn \<Rightarrow> 'a io" where
  "io_throw e w = (Inl e, w)"

definition io_lift :: "exn + 'a \<Rightarrow> 'a io" where
  "io_lift r w = (r, w)"

definition io_bind :: "'a io \<Rightarrow> ('a \<Rightarrow> 'b io) \<Rightarrow> 'b io" where
  "io_bind m f w = (case m w of (Inl e, w') \<Rightarrow> (Inl e, w') | (Inr x, w') \<Rightarrow> f x w')"

text \<open>\<^verbatim>\<open>try { m } catch { h }\<close> and \<^verbatim>\<open>m.catch(h)\<close>.\<close>

definition io_catch :: "'a io \<Rightarrow> (exn \<Rightarrow> 'a io) \<Rightarrow> 'a io" where
  "io_catch m h w = (case m w of (Inl e, w') \<Rightarrow> h e w' | (Inr x, w') \<Rightarrow> (Inr x, w'))"

definition log_event :: "event \<Rightarrow> world \<Rightarrow> world" where
  "log_event e w = w\<lparr>trace := trace w @ [e]\<rparr>"

definition date_now :: "platform \<Rightarrow> int io" where
  "date_now pf w = (Inr (Date_now pf (length (trace w))), w)"

definition readContract_bool :: "ArtifactPluginConfig \<Rightarrow> contract_call \<Rightarrow> bool io" where
  "readContract_bool cfg c w = (client_bool cfg c, log_event (ChainRead c) w)"

definition readContract_string :: "ArtifactPluginConfig \<Rightarrow> contract_call \<Rightarrow> string io" where
  "readContract_string cfg c w = (client_string cfg c, log_event (ChainRead c) w)"

definition http_fetch :: "platform \<Rightarrow> string \<Rightarrow> response io" where
  "http_fetch pf url w = (fetch pf url, log_event (HttpGet url) w)"

subsection \<open>The store\<close>

text \<open>
  \<^verbatim>\<open>select().from(t).where(key).limit(1)\<close> and
  \<^verbatim>\<open>insert(t).values(v).onConflictDoUpdate({target: key, set: row})\<close>: a row with the
  key of \<open>v\<close> has its other columns set from \<open>v\<close>; with no such row \<open>v\<close> is
  inserted. A statement that throws changes no table.
\<close>

fun upsert_token :: "ArtifactToken \<Rightarrow> ArtifactToken list \<Rightarrow> ArtifactToken list" where
  "upsert_token v [] = [v]"
| "upsert_token v (r # rs) =
     (if t_collection r = t_collection v \<and> t_tokenId r = t_tokenId v
      then r\<lparr>t_tokenStandard := t_tokenStandard v, t_tokenUri := t_tokenUri v,
              t_name := t_name v, t_description := t_description v, t_image := t_image v,
              t_animationUrl := t_animationUrl v, t_data := t_data v,
              t_updatedAt := t_updatedAt v\<rparr> # rs
      else r # upsert_token v rs)"

fun upsert_collection :: "ArtifactCollection \<Rightarrow> ArtifactCollection list \<Rightarrow> ArtifactCollection list" where
  "upsert_collection v [] = [v]"
| "upsert_collection v (r # rs) =
     (if c_collection r = c_collection v
      then r\<lparr>c_tokenStandard := c_tokenStandard v, c_name := c_name v, c_symbol := c_symbol v,
              c_owner := c_owner v, c_contractUri := c_contractUri v,
              c_description := c_description v, c_image := c_image v, c_data := c_data v,
              c_updatedAt := c_updatedAt v\<rparr> # rs
      else r # upsert_collection v rs)"

definition db_select_token :: "ArtifactPluginConfig \<Rightarrow> string \<Rightarrow> string \<Rightarrow> ArtifactToken option io" where
  "db_select_token cfg collection tokenId w =
     (if db_fails cfg (length (trace w)) then Inl StoreError
      else Inr (find (\<lambda>r. t_collection r = collection \<and> t_tokenId r = tokenId) (tokens w)),
      log_event (DbSelectToken collection tokenId) w)"

definition db_upsert_token :: "ArtifactPluginConfig \<Rightarrow> ArtifactToken \<Rightarrow> unit io" where
  "db_upsert_token cfg v w =
     (if db_fails cfg (length (trace w)) then (Inl StoreError, log_event (DbUpsertToken v) w)
      else (Inr (), log_event (DbUpsertToken v) (w\<lparr>tokens := upsert_token v (tokens w)\<rparr>)))"

definition db_select_collection :: "ArtifactPluginConfig \<Rightarrow> string \<Rightarrow> ArtifactCollection option io" where
  "db_select_collection cfg collection w =
     (if db_fails cfg (length (trace w)) then Inl StoreError
      else Inr (find (\<lambda>r. c_collection r = collection) (collections w)),
      log_event (DbSelectCollection collection) w)"

definition db_upsert_collection :: "ArtifactPluginConfig \<Rightarrow> ArtifactCollection \<Rightarrow> unit io" where
  "db_upsert_collection cfg v w =
     (if db_fails cfg (length (trace w)) then (Inl StoreError, log_event (DbUpsertCollection v) w)
      else (Inr (), log_event (DbUpsertCollection v) (w\<lparr>collections := upsert_collection v (collections w)\<rparr>)))"

section \<open>Fetching a document (\<^verbatim>\<open>fetchJson\<close> of \<^verbatim>\<open>src/uri.ts\<close>)\<close>

definition fetchJson :: "platform \<Rightarrow> string \<Rightarrow> ResolveUriOptions option \<Rightarrow> json io" where
  "fetchJson pf uri options =
     (let resolved = resolveUri (Some uri) options
      in if startsWith resolved ''data:application/json;base64,'' then
           (let base64Data = js_index (js_split resolved CHR '','') 1
            in io_lift (sum_bind (atob pf (to_string base64Data)) (JSON_parse pf)))
         else if startsWith resolved ''data:application/json'' then
           io_lift (sum_bind (decodeURIComponent pf (to_string (js_index (js_split resolved CHR '','') 1)))
                      (\<lambda>jsonStr. JSON_parse pf jsonStr))
         else
           io_bind (http_fetch pf resolved) (\<lambda>response.
             if \<not> ok response then io_throw FetchError
             else io_lift (body_json response)))"

section \<open>The service (\<^verbatim>\<open>createArtifactService\<close>)\<close>

definition DEFAULT_CACHE_TTL :: int where
  "DEFAULT_CACHE_TTL = 30 * 24 * 60 * 60 * 1000"

definition ERC721_INTERFACE_ID :: string where
  "ERC721_INTERFACE_ID = ''0x80ac58cd''"

definition ERC1155_INTERFACE_ID :: string where
  "ERC1155_INTERFACE_ID = ''0xd9b67a26''"

definition cacheTtl :: "ArtifactPluginConfig \<Rightarrow> int" where
  "cacheTtl cfg = (case config_cacheTtl cfg of None \<Rightarrow> DEFAULT_CACHE_TTL | Some t \<Rightarrow> t)"

definition uriOptions :: "ArtifactPluginConfig \<Rightarrow> ResolveUriOptions" where
  "uriOptions cfg =
     \<lparr>ipfsGateway = config_ipfsGateway cfg, arweaveGateway = config_arweaveGateway cfg\<rparr>"

text \<open>
  \<^verbatim>\<open>isFresh(timestamp)\<close>: \<^verbatim>\<open>!timestamp\<close> holds of \<^verbatim>\<open>null\<close> and of \<^verbatim>\<open>0\<close>.
\<close>

definition isFresh :: "platform \<Rightarrow> ArtifactPluginConfig \<Rightarrow> int option \<Rightarrow> bool io" where
  "isFresh pf cfg timestamp =
     (case timestamp of
        None \<Rightarrow> io_return False
      | Some ts \<Rightarrow>
          if ts = 0 then io_return False
          else io_bind (date_now pf) (\<lambda>now. io_return (now - ts * 1000 < cacheTtl cfg)))"

definition detectStandard :: "ArtifactPluginConfig \<Rightarrow> string \<Rightarrow> TokenStandard io" where
  "detectStandard cfg address =
     io_bind
       (io_catch
          (readContract_bool cfg
             (ReadContract address ''supportsInterface'' [Bytes4 ERC721_INTERFACE_ID]))
          (\<lambda>e. io_return False))
       (\<lambda>isERC721.
          if isERC721 then io_return Erc721
          else
            io_bind
              (io_catch
                 (readContract_bool cfg
                    (ReadContract address ''supportsInterface'' [Bytes4 ERC1155_INTERFACE_ID]))
                 (\<lambda>e. io_return False))
              (\<lambda>isERC1155. if isERC1155 then io_return Erc1155 else io_return Unknown))"

definition fetchTokenUri :: "ArtifactPluginConfig \<Rightarrow> string \<Rightarrow> int \<Rightarrow> TokenStandard \<Rightarrow> string io" where
  "fetchTokenUri cfg address tokenId standard =
     (if standard = Erc1155 then
        io_bind (readContract_string cfg (ReadContract address ''uri'' [Uint256 tokenId]))
          (\<lambda>uri.
             let tokenIdHex = padStart (toString16 tokenId) 64 CHR ''0''
             in io_return (js_replace uri ''{id}'' tokenIdHex))
      else readContract_string cfg (ReadContract address ''tokenURI'' [Uint256 tokenId]))"

definition fetchToken :: "ArtifactPluginConfig \<Rightarrow> string \<Rightarrow> string \<Rightarrow> ArtifactToken option io" where
  "fetchToken cfg collection tokenId = db_select_token cfg (toLowerCase collection) tokenId"

text \<open>
  The local variables of \<^verbatim>\<open>updateToken\<close> that the \<^verbatim>\<open>try\<close> block assigns, and the
  block's assignments from a fetched document, in their order: an exception
  (reading a property of \<^verbatim>\<open>null\<close>) leaves the later variables as they were.
\<close>

record token_locals =
  l_name :: "json option"
  l_description :: "json option"
  l_image :: "json option"
  l_animationUrl :: "json option"
  l_data :: "json option"

definition assign_token_locals :: "json \<Rightarrow> token_locals \<Rightarrow> token_locals" where
  "assign_token_locals metadata l0 =
     (let l1 = l0\<lparr>l_data := to_nullable metadata\<rparr> in
      (case get_prop metadata ''name'' of
         Inl e \<Rightarrow> l1
       | Inr v1 \<Rightarrow>
           (let l2 = l1\<lparr>l_name := nullish v1\<rparr> in
            (case get_prop metadata ''description'' of
               Inl e \<Rightarrow> l2
             | Inr v2 \<Rightarrow>
                 (let l3 = l2\<lparr>l_description := nullish v2\<rparr> in
                  (case get_prop metadata ''image'' of
                     Inl e \<Rightarrow> l3
                   | Inr v3 \<Rightarrow>
                       (let l4 = l3\<lparr>l_image := nullish v3\<rparr> in
                        (case get_prop metadata ''animation_url'' of
                           Inl e \<Rightarrow> l4
                         | Inr v4 \<Rightarrow> l4\<lparr>l_animationUrl := nullish v4\<rparr>))))))))"

definition token_metadata :: "platform \<Rightarrow> ArtifactPluginConfig \<Rightarrow> string option \<Rightarrow> token_locals io" where
  "token_metadata pf cfg tokenUri =
     (let l0 = \<lparr>l_name = None, l_description = None, l_image = None,
                 l_animationUrl = None, l_data = None\<rparr>
      in if truthy tokenUri then
           io_catch
             (io_bind (fetchJson pf (to_string tokenUri) (Some (uriOptions cfg)))
                (\<lambda>metadata. io_return (assign_token_locals metadata l0)))
             (\<lambda>e. io_return l0)
         else io_return l0)"

definition updateToken :: "platform \<Rightarrow> ArtifactPluginConfig \<Rightarrow> string \<Rightarrow> string \<Rightarrow> unit io" where
  "updateToken pf cfg collection tokenId =
     (let address = toLowerCase collection
      in io_bind (io_lift (BigInt tokenId)) (\<lambda>tokenIdBigInt.
         io_bind (detectStandard cfg address) (\<lambda>tokenStandard.
         io_bind
           (io_catch
              (io_bind (fetchTokenUri cfg address tokenIdBigInt tokenStandard)
                 (\<lambda>u. io_return (Some u)))
              (\<lambda>e. io_return None))
           (\<lambda>tokenUri.
         io_bind (token_metadata pf cfg tokenUri) (\<lambda>l.
         io_bind (date_now pf) (\<lambda>now.
         db_upsert_token cfg
           \<lparr>t_collection = address, t_tokenId = tokenId,
            t_tokenStandard = tokenStandard, t_tokenUri = tokenUri,
            t_name = l_name l, t_description = l_description l, t_image = l_image l,
            t_animationUrl = l_animationUrl l, t_data = l_data l,
            t_updatedAt = now div 1000\<rparr>))))))"

definition fetchCollection :: "ArtifactPluginConfig \<Rightarrow> string \<Rightarrow> ArtifactCollection option io" where
  "fetchCollection cfg address = db_select_collection cfg (toLowerCase address)"

text \<open>The same for \<^verbatim>\<open>updateCollection\<close>, whose \<^verbatim>\<open>try\<close> block assigns three variables.\<close>

record collection_locals =
  k_description :: "json option"
  k_image :: "json option"
  k_data :: "json option"

definition assign_collection_locals :: "json \<Rightarrow> collection_locals \<Rightarrow> collection_locals" where
  "assign_collection_locals metadata l0 =
     (let l1 = l0\<lparr>k_data := to_nullable metadata\<rparr> in
      (case get_prop metadata ''description'' of
         Inl e \<Rightarrow> l1
       | Inr v1 \<Rightarrow>
           (let l2 = l1\<lparr>k_description := nullish v1\<rparr> in
            (case get_prop metadata ''image'' of
               Inl e \<Rightarrow> l2
             | Inr v2 \<Rightarrow> l2\<lparr>k_image := nullish v2\<rparr>))))"

definition collection_metadata :: "platform \<Rightarrow> ArtifactPluginConfig \<Rightarrow> string option \<Rightarrow> collection_locals io" where
  "collection_metadata pf cfg contractUri =
     (let l0 = \<lparr>k_description = None, k_image = None, k_data = None\<rparr>
      in if truthy contractUri then
           io_catch
             (io_bind (fetchJson pf (to_string contractUri) (Some (uriOptions cfg)))
                (\<lambda>metadata. io_return (assign_collection_locals metadata l0)))
             (\<lambda>e. io_return l0)
         else io_return l0)"

text \<open>\<^verbatim>\<open>client.readContract(...).catch(() => null)\<close> for a string answer.\<close>

definition read_or_null :: "ArtifactPluginConfig \<Rightarrow> contract_call \<Rightarrow> string option io" where
  "read_or_null cfg c =
     io_catch (io_bind (readContract_string cfg c) (\<lambda>s. io_return (Some s)))
       (\<lambda>e. io_return None)"

text \<open>\<^verbatim>\<open>s ?? (data?.key as string) ?? null\<close> for a string \<open>s\<close> read from the chain.\<close>

definition chain_or_document :: "string option \<Rightarrow> json option \<Rightarrow> string \<Rightarrow> exn + json option" where
  "chain_or_document s d k =
     (case s of
        Some v \<Rightarrow> Inr (Some (JStr v))
      | None \<Rightarrow> sum_bind (opt_prop d k) (\<lambda>v. Inr (nullish v)))"

text \<open>
  The five reads of \<^verbatim>\<open>Promise.all\<close> are started in the order of the array; the
  second interface probe of \<^verbatim>\<open>detectStandard\<close> comes after the first has answered.
  The answers do not depend on the order, so the reads are taken in sequence.
\<close>

definition updateCollection :: "platform \<Rightarrow> ArtifactPluginConfig \<Rightarrow> string \<Rightarrow> unit io" where
  "updateCollection pf cfg address =
     (let normalized = toLowerCase address
      in io_bind (read_or_null cfg (ReadContract normalized ''name'' [])) (\<lambda>name.
         io_bind (read_or_null cfg (ReadContract normalized ''symbol'' [])) (\<lambda>symbol.
         io_bind (read_or_null cfg (ReadContract normalized ''owner'' [])) (\<lambda>owner.
         io_bind (read_or_null cfg (ReadContract normalized ''contractURI'' [])) (\<lambda>contractUri.
         io_bind (detectStandard cfg normalized) (\<lambda>tokenStandard.
         io_bind (collection_metadata pf cfg contractUri) (\<lambda>l.
         io_bind (io_lift (chain_or_document name (k_data l) ''name'')) (\<lambda>row_name.
         io_bind (io_lift (chain_or_document symbol (k_data l) ''symbol'')) (\<lambda>row_symbol.
         io_bind (date_now pf) (\<lambda>now.
         db_upsert_collection cfg
           \<lparr>c_collection = normalized, c_tokenStandard = tokenStandard,
            c_name = row_name, c_symbol = row_symbol,
            c_owner = map_option toLowerCase owner, c_contractUri = contractUri,
            c_description = k_description l, c_image = k_image l, c_data = k_data l,
            c_updatedAt = now div 1000\<rparr>))))))))))"

section \<open>The routes (\<^verbatim>\<open>createArtifactRoutes\<close>)\<close>

text \<open>
  \<^verbatim>\<open>c.json(row)\<close> is \<open>Json200\<close> (of a row or of \<^verbatim>\<open>null\<close>);
  \<^verbatim>\<open>c.json({ error: msg }, 500)\<close> is \<open>JsonError msg 500\<close>. An exception that leaves a
  handler is the \<open>Inl\<close> of its result.
\<close>

datatype 'a reply = Json200 "'a option" | JsonError string nat

definition get_token_route :: "platform \<Rightarrow> ArtifactPluginConfig \<Rightarrow> string \<Rightarrow> string \<Rightarrow> ArtifactToken reply io" where
  "get_token_route pf cfg collection tokenId =
     io_bind (fetchToken cfg collection tokenId) (\<lambda>cached.
     io_bind (case cached of
                None \<Rightarrow> io_return False
              | Some r \<Rightarrow> isFresh pf cfg (Some (t_updatedAt r))) (\<lambda>fresh.
       if fresh then io_return (Json200 cached)
       else
         io_catch
           (io_bind (updateToken pf cfg collection tokenId) (\<lambda>u.
            io_bind (fetchToken cfg collection tokenId) (\<lambda>r. io_return (Json200 r))))
           (\<lambda>e. case cached of
                   Some r \<Rightarrow> io_return (Json200 (Some r))
                 | None \<Rightarrow> io_return (JsonError ''Failed to fetch token metadata'' 500))))"

definition post_token_route :: "platform \<Rightarrow> ArtifactPluginConfig \<Rightarrow> string \<Rightarrow> string \<Rightarrow> ArtifactToken reply io" where
  "post_token_route pf cfg collection tokenId =
     io_catch
       (io_bind (updateToken pf cfg collection tokenId) (\<lambda>u.
        io_bind (fetchToken cfg collection tokenId) (\<lambda>r. io_return (Json200 r))))
       (\<lambda>e. io_bind (fetchToken cfg collection tokenId) (\<lambda>cached.
               case cached of
                 Some r \<Rightarrow> io_return (Json200 (Some r))
               | None \<Rightarrow> io_return (JsonError ''Failed to fetch token metadata'' 500)))"

definition get_collection_route :: "platform \<Rightarrow> ArtifactPluginConfig \<Rightarrow> string \<Rightarrow> ArtifactCollection reply io" where
  "get_collection_route pf cfg address =
     io_bind (fetchCollection cfg address) (\<lambda>cached.
     io_bind (case cached of
                None \<Rightarrow> io_return False
              | Some r \<Rightarrow> isFresh pf cfg (Some (c_updatedAt r))) (\<lambda>fresh.
       if fresh then io_return (Json200 cached)
       else
         io_catch
           (io_bind (updateCollection pf cfg address) (\<lambda>u.
            io_bind (fetchCollection cfg address) (\<lambda>r. io_return (Json200 r))))
           (\<lambda>e. case cached of
                   Some r \<Rightarrow> io_return (Json200 (Some r))
                 | None \<Rightarrow> io_return (JsonError ''Failed to fetch collection metadata'' 500))))"

definition post_collection_route :: "platform \<Rightarrow> ArtifactPluginConfig \<Rightarrow> string \<Rightarrow> ArtifactCollection reply io" where
  "post_collection_route pf cfg address =
     io_catch
       (io_bind (updateCollection pf cfg address) (\<lambda>u.
        io_bind (fetchCollection cfg address) (\<lambda>r. io_return (Json200 r))))
       (\<lambda>e. io_bind (fetchCollection cfg address) (\<lambda>cached.
               case cached of
                 Some r \<Rightarrow> io_return (Json200 (Some r))
               | None \<Rightarrow> io_return (JsonError ''Failed to fetch collection metadata'' 500)))"

section \<open>Computations that only call collaborators\<close>

text \<open>
  The chain client and \<^verbatim>\<open>fetch\<close> answer by their arguments alone, so a computation
  built from them returns the same result in every world and changes the world only
  by the calls it adds to the trace. \<open>logs_only m r evs\<close> says so of \<open>m\<close>;
  \<open>total_io\<close> adds that the result is not an exception.
\<close>

definition add_events :: "event list \<Rightarrow> world \<Rightarrow> world" where
  "add_events evs w = w\<lparr>trace := trace w @ evs\<rparr>"

definition logs_only :: "'a io \<Rightarrow> exn + 'a \<Rightarrow> event list \<Rightarrow> bool" where
  "logs_only m r evs = (\<forall>w. m w = (r, add_events evs w))"

definition pure_io :: "'a io \<Rightarrow> bool" where
  "pure_io m = (\<exists>r evs. logs_only m r evs)"

definition total_io :: "'a io \<Rightarrow> bool" where
  "total_io m = (\<exists>x evs. logs_only m (Inr x) evs)"

section \<open>Example collaborators\<close>

text \<open>
  A platform that serves one document, decodes one base64 text and parses two JSON
  texts; a chain whose contract \<^verbatim>\<open>0xabc\<close> is an ERC1155 with a name and a contract
  URI; a store that never fails.
\<close>

definition demo_doc :: json where
  "demo_doc =
     JObj [(''name'', JStr ''Doc name''), (''symbol'', JStr ''DOC''),
           (''description'', JStr ''A document''), (''image'', JStr ''ipfs://img'')]"

definition demo_platform :: platform where
  "demo_platform =
     \<lparr>fetch = (\<lambda>url. if url = ''https://ipfs.io/ipfs/meta''
                     then Inr \<lparr>ok = True, status = 200, body_json = Inr demo_doc\<rparr>
                     else Inl FetchError),
      atob = (\<lambda>s. if s = ''eyJhIjoxfQ=='' then Inr ''{\"a\":1}'' else Inl DecodeError),
      decodeURIComponent = (\<lambda>s. if CHR ''%'' \<in> set s then Inl DecodeError else Inr s),
      JSON_parse = (\<lambda>s. if s = ''{\"a\":1}'' then Inr (JObj [(''a'', JNum 1)])
                        else if s = ''{\"a\":1,\"b\":2}''
                        then Inr (JObj [(''a'', JNum 1), (''b'', JNum 2)])
                        else Inl ParseError),
      Date_now = (\<lambda>k. 1700000000000 + int k)\<rparr>"

definition demo_config :: ArtifactPluginConfig where
  "demo_config =
     \<lparr>client_bool = (\<lambda>c. if c = ReadContract ''0xabc'' ''supportsInterface'' [Bytes4 ''0xd9b67a26'']
                         then Inr True else Inl ChainCallError),
      client_string = (\<lambda>c. case c of ReadContract a f xs \<Rightarrow>
                         if a \<noteq> ''0xabc'' then Inl ChainCallError
                         else if f = ''uri'' then Inr ''https://x/{id}.json''
                         else if f = ''name'' then Inr ''Chain name''
                         else if f = ''contractURI'' then Inr ''ipfs://meta''
                         else Inl ChainCallError),
      db_fails = (\<lambda>k. False),
      config_cacheTtl = None,
      config_ipfsGateway = None,
      config_arweaveGateway = None\<rparr>"

definition demo_options :: ResolveUriOptions where
  "demo_options = \<lparr>ipfsGateway = Some ''https://gw.example/ipfs/'', arweaveGateway = None\<rparr>"

definition empty_world :: world where
  "empty_world = \<lparr>tokens = [], collections = [], trace = []\<rparr>"

text \<open>
  A stored token row and a stored collection row written long ago, the same rows
  written 1000 s before the example clock, worlds that hold them, and a store whose
  statement fails when it is the one issued after \<open>n\<close> calls.
\<close>

definition old_token :: ArtifactToken where
  "old_token =
     \<lparr>t_collection = ''0xabc'', t_tokenId = ''7'', t_tokenStandard = Erc721,
      t_tokenUri = Some ''ipfs://old'', t_name = Some (JStr ''Old name''),
      t_description = None, t_image = Some (JStr ''ipfs://oldimg''), t_animationUrl = None,
      t_data = Some (JObj [(''name'', JStr ''Old name'')]), t_updatedAt = 1600000000\<rparr>"

definition recent_token :: ArtifactToken where
  "recent_token = old_token\<lparr>t_updatedAt := 1699999000\<rparr>"

definition old_collection :: ArtifactCollection where
  "old_collection =
     \<lparr>c_collection = ''0xabc'', c_tokenStandard = Unknown, c_name = Some (JStr ''Old name''),
      c_symbol = Some (JStr ''OLD''), c_owner = Some ''0xdef'', c_contractUri = None,
      c_description = Some (JStr ''Old description''), c_image = None, c_data = None,
      c_updatedAt = 1600000000\<rparr>"

definition recent_collection :: ArtifactCollection where
  "recent_collection = old_collection\<lparr>c_updatedAt := 1699999000\<rparr>"

definition token_world :: "ArtifactToken \<Rightarrow> world" where
  "token_world r = \<lparr>tokens = [r], collections = [], trace = []\<rparr>"

definition collection_world :: "ArtifactCollection \<Rightarrow> world" where
  "collection_world r = \<lparr>tokens = [], collections = [r], trace = []\<rparr>"

definition store_fails_at :: "nat \<Rightarrow> ArtifactPluginConfig" where
  "store_fails_at n = demo_config\<lparr>db_fails := (\<lambda>k. k = n)\<rparr>"

text \<open>A chain on which every call fails.\<close>

definition dead_chain :: ArtifactPluginConfig where
  "dead_chain =
     demo_config\<lparr>client_bool := (\<lambda>c. Inl ChainCallError),
                 client_string := (\<lambda>c. Inl ChainCallError)\<rparr>"

text \<open>
  A store whose every statement issued after \<open>n\<close> or more calls throws, and the rows
  a refresh against the example collaborators writes.
\<close>

definition store_fails_from :: "nat \<Rightarrow> ArtifactPluginConfig" where
  "store_fails_from n = demo_config\<lparr>db_fails := (\<lambda>k. n \<le> k)\<rparr>"

definition refreshed_token :: ArtifactToken where
  "refreshed_token =
     \<lparr>t_collection = ''0xabc'', t_tokenId = ''7'', t_tokenStandard = Erc1155,
      t_tokenUri = Some (''https://x/'' @ replicate 63 CHR ''0'' @ ''7.json''),
      t_name = None, t_description = None, t_image = None, t_animationUrl = None,
      t_data = None, t_updatedAt = 1700000000\<rparr>"

definition refreshed_collection :: ArtifactCollection where
  "refreshed_collection =
     \<lparr>c_collection = ''0xabc'', c_tokenStandard = Erc1155,
      c_name = Some (JStr ''Chain name''), c_symbol = Some (JStr ''DOC''),
      c_owner = None, c_contractUri = Some ''ipfs://meta'',
      c_description = Some (JStr ''A document''), c_image = Some (JStr ''ipfs://img''),
      c_data = Some demo_doc, c_updatedAt = 1700000000\<rparr>"

section \<open>Lemmas on the string functions\<close>

lemma js_replace_prefix: "prefix p u \<Longrightarrow> js_replace u p r = r @ drop (length p) u"
  by (cases u) auto

section \<open>Lemmas on computations that only call collaborators\<close>

lemma add_events_simps [simp]:
  "add_events [] w = w"
  "add_events e2 (add_events e1 w) = add_events (e1 @ e2) w"
  "tokens (add_events evs w) = tokens w"
  "collections (add_events evs w) = collections w"
  "trace (add_events evs w) = trace w @ evs"
  by (simp_all add: add_events_def)

lemma log_event_add: "log_event e w = add_events [e] w"
  by (simp add: log_event_def add_events_def)

lemma logs_only_return: "logs_only (io_return x) (Inr x) []"
  by (simp add: logs_only_def io_return_def)

lemma logs_only_throw: "logs_only (io_throw e) (Inl e) []"
  by (simp add: logs_only_def io_throw_def)

lemma logs_only_lift: "logs_only (io_lift r) r []"
  by (simp add: logs_only_def io_lift_def)

lemma logs_only_read_bool: "logs_only (readContract_bool cfg c) (client_bool cfg c) [ChainRead c]"
  by (simp add: logs_only_def readContract_bool_def log_event_add)

lemma logs_only_read_string: "logs_only (readContract_string cfg c) (client_string cfg c) [ChainRead c]"
  by (simp add: logs_only_def readContract_string_def log_event_add)

lemma logs_only_http: "logs_only (http_fetch pf url) (fetch pf url) [HttpGet url]"
  by (simp add: logs_only_def http_fetch_def log_event_add)

lemma logs_only_bind:
  "logs_only m (Inr x) e1 \<Longrightarrow> logs_only (f x) r e2 \<Longrightarrow> logs_only (io_bind m f) r (e1 @ e2)"
  by (simp add: logs_only_def io_bind_def)

lemma logs_only_bind_fail:
  "logs_only m (Inl e) e1 \<Longrightarrow> logs_only (io_bind m f) (Inl e) e1"
  by (simp add: logs_only_def io_bind_def)

lemma logs_only_catch_ok:
  "logs_only m (Inr x) e1 \<Longrightarrow> logs_only (io_catch m h) (Inr x) e1"
  by (simp add: logs_only_def io_catch_def)

lemma logs_only_catch_fail:
  "logs_only m (Inl e) e1 \<Longrightarrow> logs_only (h e) r e2 \<Longrightarrow> logs_only (io_catch m h) r (e1 @ e2)"
  by (simp add: logs_only_def io_catch_def)

lemma pure_io_return [intro!, simp]: "pure_io (io_return x)"
  unfolding pure_io_def by (intro exI) (rule logs_only_return)

lemma pure_io_throw [intro!, simp]: "pure_io (io_throw e)"
  unfolding pure_io_def by (intro exI) (rule logs_only_throw)

lemma pure_io_lift [intro!, simp]: "pure_io (io_lift r)"
  unfolding pure_io_def by (intro exI) (rule logs_only_lift)

lemma pure_io_read_bool [intro!, simp]: "pure_io (readContract_bool cfg c)"
  unfolding pure_io_def by (intro exI) (rule logs_only_read_bool)

lemma pure_io_read_string [intro!, simp]: "pure_io (readContract_string cfg c)"
  unfolding pure_io_def by (intro exI) (rule logs_only_read_string)

lemma pure_io_http [intro!, simp]: "pure_io (http_fetch pf url)"
  unfolding pure_io_def by (intro exI) (rule logs_only_http)

lemma pure_io_bind [intro!]:
  assumes "pure_io m" and "\<And>x. pure_io (f x)"
  shows "pure_io (io_bind m f)"
proof -
  from assms(1) obtain r e1 where m: "logs_only m r e1"
    unfolding pure_io_def by blast
  show ?thesis
  proof (cases r)
    case (Inl e)
    with m have "logs_only (io_bind m f) (Inl e) e1"
      by (simp add: logs_only_bind_fail)
    then show ?thesis
      unfolding pure_io_def by (intro exI)
  next
    case (Inr x)
    from assms(2) [of x] obtain r2 e2 where "logs_only (f x) r2 e2"
      unfolding pure_io_def by blast
    with m Inr have "logs_only (io_bind m f) r2 (e1 @ e2)"
      by (simp add: logs_only_bind)
    then show ?thesis
      unfolding pure_io_def by (intro exI)
  qed
qed

lemma pure_io_catch [intro!]:
  assumes "pure_io m" and "\<And>e. pure_io (h e)"
  shows "pure_io (io_catch m h)"
proof -
  from assms(1) obtain r e1 where m: "logs_only m r e1"
    unfolding pure_io_def by blast
  show ?thesis
  proof (cases r)
    case (Inr x)
    with m have "logs_only (io_catch m h) (Inr x) e1"
      by (simp add: logs_only_catch_ok)
    then show ?thesis
      unfolding pure_io_def by (intro exI)
  next
    case (Inl e)
    from assms(2) [of e] obtain r2 e2 where "logs_only (h e) r2 e2"
      unfolding pure_io_def by blast
    with m Inl have "logs_only (io_catch m h) r2 (e1 @ e2)"
      by (simp add: logs_only_catch_fail)
    then show ?thesis
      unfolding pure_io_def by (intro exI)
  qed
qed

lemma total_io_return [intro!, simp]: "total_io (io_return x)"
  unfolding total_io_def by (intro exI) (rule logs_only_return)

lemma total_io_bind [intro!]:
  assumes "total_io m" and "\<And>x. total_io (f x)"
  shows "total_io (io_bind m f)"
proof -
  from assms(1) obtain x e1 where m: "logs_only m (Inr x) e1"
    unfolding total_io_def by blast
  from assms(2) [of x] obtain y e2 where "logs_only (f x) (Inr y) e2"
    unfolding total_io_def by blast
  with m have "logs_only (io_bind m f) (Inr y) (e1 @ e2)"
    by (simp add: logs_only_bind)
  then show ?thesis
    unfolding total_io_def by (intro exI)
qed

lemma total_io_catch [intro!]:
  assumes "pure_io m" and "\<And>e. total_io (h e)"
  shows "total_io (io_catch m h)"
proof -
  from assms(1) obtain r e1 where m: "logs_only m r e1"
    unfolding pure_io_def by blast
  show ?thesis
  proof (cases r)
    case (Inr x)
    with m have "logs_only (io_catch m h) (Inr x) e1"
      by (simp add: logs_only_catch_ok)
    then show ?thesis
      unfolding total_io_def by (intro exI)
  next
    case (Inl e)
    from assms(2) [of e] obtain y e2 where "logs_only (h e) (Inr y) e2"
      unfolding total_io_def by blast
    with m Inl have "logs_only (io_catch m h) (Inr y) (e1 @ e2)"
      by (simp add: logs_only_catch_fail)
    then show ?thesis
      unfolding total_io_def by (intro exI)
  qed
qed

lemma total_io_run: "total_io m \<Longrightarrow> \<exists>x evs. \<forall>w. m w = (Inr x, add_events evs w)"
  by (auto simp: total_io_def logs_only_def)

lemma total_detectStandard: "total_io (detectStandard cfg a)"
  unfolding detectStandard_def by (intro total_io_bind total_io_catch) auto

lemma pure_fetchTokenUri: "pure_io (fetchTokenUri cfg a n s)"
  unfolding fetchTokenUri_def by (auto simp: Let_def)

lemma pure_fetchJson: "pure_io (fetchJson pf u opts)"
  unfolding fetchJson_def by (auto simp: Let_def)

lemma total_token_metadata: "total_io (token_metadata pf cfg u)"
  unfolding token_metadata_def by (auto simp: Let_def intro!: pure_fetchJson)

lemma total_collection_metadata: "total_io (collection_metadata pf cfg u)"
  unfolding collection_metadata_def by (auto simp: Let_def intro!: pure_fetchJson)

section \<open>URI resolution\<close>

text \<open>
  C4. \<^verbatim>\<open>resolveUri\<close> applies its rules in order, the first match winning: an
  absent or empty input gives the empty string; a string that begins with \<^verbatim>\<open>data:\<close>
  is returned unchanged; \<^verbatim>\<open>ipfs://rest\<close> becomes the IPFS gateway followed by
  \<^verbatim>\<open>rest\<close>; \<^verbatim>\<open>ar://rest\<close> becomes the Arweave gateway followed by \<^verbatim>\<open>rest\<close>; a string
  that begins with \<^verbatim>\<open>Qm\<close> or \<^verbatim>\<open>baf\<close> is put after the IPFS gateway; anything else is
  returned unchanged. The IPFS gateway is the option \<^verbatim>\<open>ipfsGateway\<close> when the options
  are given and it is a nonempty string, and \<^verbatim>\<open>https://ipfs.io/ipfs/\<close> otherwise; the
  Arweave gateway is the option \<^verbatim>\<open>arweaveGateway\<close> when the options are given and it
  is a nonempty string, and \<^verbatim>\<open>https://arweave.net/\<close> otherwise.
\<close>

theorem resolveUri_rules:
  "resolveUri uri options =
     (let ipfs = (case options of
                    None \<Rightarrow> ''https://ipfs.io/ipfs/''
                  | Some opts \<Rightarrow>
                      (case ipfsGateway opts of
                         None \<Rightarrow> ''https://ipfs.io/ipfs/''
                       | Some g \<Rightarrow> if g = [] then ''https://ipfs.io/ipfs/'' else g));
          ar = (case options of
                  None \<Rightarrow> ''https://arweave.net/''
                | Some opts \<Rightarrow>
                    (case arweaveGateway opts of
                       None \<Rightarrow> ''https://arweave.net/''
                     | Some g \<Rightarrow> if g = [] then ''https://arweave.net/'' else g))
      in case uri of
           None \<Rightarrow> []
         | Some u \<Rightarrow>
             if u = [] then []
             else if prefix ''data:'' u then u
             else if prefix ''ipfs://'' u then ipfs @ drop 7 u
             else if prefix ''ar://'' u then ar @ drop 5 u
             else if prefix ''Qm'' u \<or> prefix ''baf'' u then ipfs @ u
             else u)"
  by (simp add: resolveUri_def startsWith_def js_replace_prefix Let_def eval_nat_numeral
      ipfs_gateway_def arweave_gateway_def or_default_def DEFAULT_IPFS_GATEWAY_def
      DEFAULT_ARWEAVE_GATEWAY_def split: option.split)

text \<open>
  With both gateways configured, with only the IPFS gateway configured, with an
  empty string for a gateway, and with no options.
\<close>

theorem resolveUri_rules_witness:
  "resolveUri (Some ''ipfs://abc'')
       (Some \<lparr>ipfsGateway = Some ''https://my-ipfs/'', arweaveGateway = Some ''https://my-ar/''\<rparr>)
     = ''https://my-ipfs/abc''
   \<and> resolveUri (Some ''ar://xyz'')
       (Some \<lparr>ipfsGateway = Some ''https://my-ipfs/'', arweaveGateway = Some ''https://my-ar/''\<rparr>)
     = ''https://my-ar/xyz''
   \<and> resolveUri (Some ''Qm123'')
       (Some \<lparr>ipfsGateway = Some ''https://my-ipfs/'', arweaveGateway = Some ''https://my-ar/''\<rparr>)
     = ''https://my-ipfs/Qm123''
   \<and> resolveUri (Some ''ar://xyz'') (Some demo_options) = ''https://arweave.net/xyz''
   \<and> resolveUri (Some ''bafy'') (Some demo_options) = ''https://gw.example/ipfs/bafy''
   \<and> resolveUri (Some ''ar://xyz'')
       (Some \<lparr>ipfsGateway = Some '''', arweaveGateway = Some ''''\<rparr>)
     = ''https://arweave.net/xyz''
   \<and> resolveUri (Some ''ipfs://abc'')
       (Some \<lparr>ipfsGateway = Some '''', arweaveGateway = Some ''''\<rparr>)
     = ''https://ipfs.io/ipfs/abc''
   \<and> resolveUri (Some ''ipfs://abc'') None = ''https://ipfs.io/ipfs/abc''
   \<and> resolveUri (Some ''ar://xyz'') None = ''https://arweave.net/xyz''
   \<and> resolveUri (Some ''Qm123'') None = ''https://ipfs.io/ipfs/Qm123''
   \<and> resolveUri (Some ''https://example.com/m.json'') None = ''https://example.com/m.json''
   \<and> resolveUri (Some ''data:ipfs://x'') None = ''data:ipfs://x''
   \<and> resolveUri (Some ''ipfs://a/ipfs://b'') None = ''https://ipfs.io/ipfs/a/ipfs://b''
   \<and> resolveUri (Some '''') None = ''''
   \<and> resolveUri None (Some demo_options) = ''''"
  using resolveUri_rules [of "Some ''ar://xyz''"
      "Some \<lparr>ipfsGateway = Some ''https://my-ipfs/'', arweaveGateway = Some ''https://my-ar/''\<rparr>"]
    resolveUri_rules [of "Some ''ipfs://abc''" None]
  by (simp add: resolveUri_def startsWith_def ipfs_gateway_def arweave_gateway_def
      or_default_def demo_options_def DEFAULT_IPFS_GATEWAY_def DEFAULT_ARWEAVE_GATEWAY_def
      Let_def)

section \<open>Freshness\<close>

text \<open>
  C2, as the code has it. \<^verbatim>\<open>isFresh(ts)\<close> is false when \<open>ts\<close> is absent or zero;
  for every other \<open>ts\<close> it is true exactly when
  \<^verbatim>\<open>now - ts*1000 < cacheTtl\<close>, so it is false once exactly \<^verbatim>\<open>cacheTtl\<close>
  milliseconds have passed. It calls no collaborator.
\<close>

theorem isFresh_spec:
  "isFresh pf cfg timestamp w =
     (Inr (case timestamp of
             None \<Rightarrow> False
           | Some ts \<Rightarrow> ts \<noteq> 0 \<and> Date_now pf (length (trace w)) - ts * 1000 < cacheTtl cfg), w)"
  by (simp add: isFresh_def io_return_def io_bind_def date_now_def split: option.split)

text \<open>
  With the default time to live of 30 days and the clock at 1700000000000 ms: a
  record written 2592000 s earlier is stale (the boundary), one written a second
  later is fresh, and no timestamp is stale.
\<close>

theorem isFresh_spec_witness:
  "isFresh demo_platform demo_config (Some 1697408000) empty_world = (Inr False, empty_world)
   \<and> isFresh demo_platform demo_config (Some 1697408001) empty_world = (Inr True, empty_world)
   \<and> isFresh demo_platform demo_config None empty_world = (Inr False, empty_world)"
  using isFresh_spec [of demo_platform demo_config "Some 1697408000" empty_world]
    isFresh_spec [of demo_platform demo_config "Some 1697408001" empty_world]
    isFresh_spec [of demo_platform demo_config None empty_world]
  by (simp add: demo_platform_def demo_config_def empty_world_def cacheTtl_def
      DEFAULT_CACHE_TTL_def)

text \<open>
  C2 as stated fails at the timestamp \<open>0\<close>: with a time to live of
  2000000000000 ms the elapsed time 1700000000000 ms is below it, and
  \<^verbatim>\<open>isFresh(0)\<close> is false all the same.
\<close>

theorem isFresh_epoch_counterexample:
  "\<not> (fst (isFresh demo_platform (demo_config\<lparr>config_cacheTtl := Some 2000000000000\<rparr>)
              (Some 0) empty_world)
        = Inr (Date_now demo_platform (length (trace empty_world)) - 0 * 1000
                 < cacheTtl (demo_config\<lparr>config_cacheTtl := Some 2000000000000\<rparr>)))"
  by (simp add: isFresh_def io_return_def demo_platform_def demo_config_def empty_world_def
      cacheTtl_def)

text \<open>
  C10. \<^verbatim>\<open>isFresh(0)\<close> is false for every time to live and every clock, and is
  what \<^verbatim>\<open>isFresh(null)\<close> is: the guard \<^verbatim>\<open>!timestamp\<close> holds of \<open>0\<close>.
\<close>

theorem isFresh_zero:
  "isFresh pf cfg (Some 0) w = (Inr False, w)
   \<and> isFresh pf cfg (Some 0) w = isFresh pf cfg None w"
  by (simp add: isFresh_def io_return_def)

section \<open>Lemmas on replacement and hexadecimal digits\<close>

lemma js_replace_absent:
  "pat \<noteq> [] \<Longrightarrow> \<not> sublist pat u \<Longrightarrow> js_replace u pat rep = u"
  by (induction u) (auto simp: sublist_Cons_right)

lemma prefix_overlap:
  assumes "prefix pat (xs @ pat @ post)" and "xs \<noteq> []"
  shows "prefix pat (xs @ butlast pat)"
proof (cases "pat = []")
  case True
  then show ?thesis by simp
next
  case False
  have "prefix (xs @ butlast pat) (xs @ pat @ post)"
    by (metis False append_butlast_last_id append.assoc prefix_def same_prefix_prefix)
  moreover have "length pat \<le> length (xs @ butlast pat)"
    using assms(2) False by (cases xs) auto
  ultimately show ?thesis
    using assms(1) prefix_length_prefix by blast
qed

lemma js_replace_first:
  "pat \<noteq> [] \<Longrightarrow> \<not> sublist pat (pre @ butlast pat)
     \<Longrightarrow> js_replace (pre @ pat @ post) pat rep = pre @ rep @ post"
proof (induction pre)
  case Nil
  then show ?case by (cases pat) auto
next
  case (Cons c pre)
  from Cons.prems have 1: "\<not> prefix pat ((c # pre) @ butlast pat)" and 2: "\<not> sublist pat (pre @ butlast pat)"
    by (auto simp: sublist_Cons_right)
  from 1 have "\<not> prefix pat ((c # pre) @ pat @ post)"
    using prefix_overlap [of pat "c # pre" post] by blast
  with Cons.IH [OF Cons.prems(1) 2] show ?case by simp
qed

lemma hex_digit_value:
  assumes "d < 16"
  shows "digit_value (''0123456789abcdef'' ! d) = Some d"
proof -
  from assms have "d = 0 \<or> d = 1 \<or> d = 2 \<or> d = 3 \<or> d = 4 \<or> d = 5 \<or> d = 6 \<or> d = 7
      \<or> d = 8 \<or> d = 9 \<or> d = 10 \<or> d = 11 \<or> d = 12 \<or> d = 13 \<or> d = 14 \<or> d = 15"
    by arith
  then show ?thesis
    by (elim disjE) (simp_all add: digit_value_def)
qed

lemma hex_digit_mem: "d < 16 \<Longrightarrow> ''0123456789abcdef'' ! d \<in> set ''0123456789abcdef''"
  by (rule nth_mem) simp

lemma hex_of_nat_digits: "set (hex_of_nat n) \<subseteq> set ''0123456789abcdef''"
proof (induction n rule: hex_of_nat.induct)
  case (1 n)
  show ?case
  proof (cases "n < 16")
    case True
    then show ?thesis
      using hex_digit_mem [of n] by (subst hex_of_nat.simps) simp
  next
    case False
    have "n mod 16 < 16" by simp
    with False 1 hex_digit_mem [of "n mod 16"] show ?thesis
      by (subst hex_of_nat.simps) simp
  qed
qed

lemma hex_of_nat_length: "0 < k \<Longrightarrow> n < 16 ^ k \<Longrightarrow> length (hex_of_nat n) \<le> k"
proof (induction n arbitrary: k rule: hex_of_nat.induct)
  case (1 n)
  show ?case
  proof (cases "n < 16")
    case True
    with 1(2) show ?thesis by (subst hex_of_nat.simps) simp
  next
    case False
    with 1(3) have k: "1 < k"
      by (cases "k = 1") (use 1(2) in auto)
    then obtain j where j: "k = Suc j" "0 < j"
      by (cases k) auto
    with 1(3) have "n div 16 < 16 ^ j"
      by (simp add: less_mult_imp_div_less mult.commute)
    with 1(1) [OF False j(2)] have "length (hex_of_nat (n div 16)) \<le> j" .
    with False j show ?thesis by (subst hex_of_nat.simps) simp
  qed
qed

lemma digits_value_snoc:
  "digits_value r (ds @ [c]) = digits_value r ds * r + (case digit_value c of None \<Rightarrow> 0 | Some d \<Rightarrow> d)"
  by (simp add: digits_value_def)

lemma hex_of_nat_value: "digits_value 16 (hex_of_nat n) = n"
proof (induction n rule: hex_of_nat.induct)
  case (1 n)
  show ?case
  proof (cases "n < 16")
    case True
    then show ?thesis
      by (subst hex_of_nat.simps) (simp add: digits_value_def hex_digit_value)
  next
    case False
    with 1 show ?thesis
      by (subst hex_of_nat.simps) (simp add: digits_value_snoc hex_digit_value)
  qed
qed

lemma digit_value_zero: "digit_value CHR ''0'' = Some 0"
  by (simp add: digit_value_def)

lemma digits_value_zeros: "digits_value r (replicate k CHR ''0'' @ ds) = digits_value r ds"
proof -
  have "foldl (\<lambda>acc c. acc * r + (case digit_value c of None \<Rightarrow> 0 | Some d \<Rightarrow> d)) 0
          (replicate k CHR ''0'') = 0"
    by (induction k) (simp_all add: digit_value_zero)
  then show ?thesis by (simp add: digits_value_def)
qed

lemma tokenIdHex_props:
  assumes "0 \<le> t" and "t < 2 ^ 256"
  shows "length (padStart (toString16 t) 64 CHR ''0'') = 64"
    and "set (padStart (toString16 t) 64 CHR ''0'') \<subseteq> set ''0123456789abcdef''"
    and "digits_value 16 (padStart (toString16 t) 64 CHR ''0'') = nat t"
proof -
  have "nat t < 16 ^ 64"
    using assms by (simp add: nat_less_iff)
  then have len: "length (hex_of_nat (nat t)) \<le> 64"
    using hex_of_nat_length [of 64 "nat t"] by simp
  from assms(1) have ts: "toString16 t = hex_of_nat (nat t)"
    by (simp add: toString16_def)
  show "length (padStart (toString16 t) 64 CHR ''0'') = 64"
    using len by (simp add: padStart_def ts)
  show "set (padStart (toString16 t) 64 CHR ''0'') \<subseteq> set ''0123456789abcdef''"
    using hex_of_nat_digits [of "nat t"] by (auto simp: padStart_def ts)
  show "digits_value 16 (padStart (toString16 t) 64 CHR ''0'') = nat t"
    by (simp add: padStart_def ts digits_value_zeros hex_of_nat_value)
qed

section \<open>Standard detection\<close>

text \<open>
  C7. \<^verbatim>\<open>detectStandard\<close> first asks \<^verbatim>\<open>supportsInterface(0x80ac58cd)\<close>; when the
  answer is \<^verbatim>\<open>true\<close> the standard is ERC721 and no second call is made. Otherwise
  it asks \<^verbatim>\<open>supportsInterface(0xd9b67a26)\<close>; when that answer is \<^verbatim>\<open>true\<close> the
  standard is ERC1155, otherwise Unknown. A call that fails counts as \<^verbatim>\<open>false\<close>,
  and the result is never an exception.
\<close>

theorem detectStandard_probes:
  "detectStandard cfg a w =
     (if client_bool cfg (ReadContract a ''supportsInterface'' [Bytes4 ''0x80ac58cd'']) = Inr True
      then (Inr Erc721,
            w\<lparr>trace := trace w @
               [ChainRead (ReadContract a ''supportsInterface'' [Bytes4 ''0x80ac58cd''])]\<rparr>)
      else (Inr (if client_bool cfg (ReadContract a ''supportsInterface'' [Bytes4 ''0xd9b67a26''])
                     = Inr True
                 then Erc1155 else Unknown),
            w\<lparr>trace := trace w @
               [ChainRead (ReadContract a ''supportsInterface'' [Bytes4 ''0x80ac58cd'']),
                ChainRead (ReadContract a ''supportsInterface'' [Bytes4 ''0xd9b67a26''])]\<rparr>))"
  by (cases "client_bool cfg (ReadContract a ''supportsInterface'' [Bytes4 ''0x80ac58cd''])";
      cases "client_bool cfg (ReadContract a ''supportsInterface'' [Bytes4 ''0xd9b67a26''])")
    (auto simp: detectStandard_def io_bind_def io_catch_def io_return_def readContract_bool_def
      log_event_def ERC721_INTERFACE_ID_def ERC1155_INTERFACE_ID_def)


text \<open>
  On the example chain the ERC721 probe fails and the ERC1155 probe affirms.
\<close>

theorem detectStandard_probes_witness:
  "detectStandard demo_config ''0xabc'' empty_world =
     (Inr Erc1155,
      empty_world\<lparr>trace :=
        [ChainRead (ReadContract ''0xabc'' ''supportsInterface'' [Bytes4 ''0x80ac58cd'']),
         ChainRead (ReadContract ''0xabc'' ''supportsInterface'' [Bytes4 ''0xd9b67a26''])]\<rparr>)"
  using detectStandard_probes [of demo_config "''0xabc''" empty_world]
  by (simp add: demo_config_def empty_world_def)

lemma fetchTokenUri_erc1155_run:
  "fetchTokenUri cfg a t Erc1155 w =
     (map_sum id (\<lambda>u. js_replace u ''{id}'' (padStart (toString16 t) 64 CHR ''0''))
        (client_string cfg (ReadContract a ''uri'' [Uint256 t])),
      w\<lparr>trace := trace w @ [ChainRead (ReadContract a ''uri'' [Uint256 t])]\<rparr>)"
  by (cases "client_string cfg (ReadContract a ''uri'' [Uint256 t])")
    (simp_all add: fetchTokenUri_def io_bind_def io_return_def readContract_string_def
      log_event_def Let_def)

lemma fetchTokenUri_erc1155_first:
  "client_string cfg (ReadContract a ''uri'' [Uint256 t]) = Inr (pre @ ''{id}'' @ post)
     \<and> \<not> sublist ''{id}'' (pre @ ''{id'')
   \<longrightarrow> fetchTokenUri cfg a t Erc1155 w =
         (Inr (pre @ padStart (toString16 t) 64 CHR ''0'' @ post),
          w\<lparr>trace := trace w @ [ChainRead (ReadContract a ''uri'' [Uint256 t])]\<rparr>)"
proof (intro impI, elim conjE)
  assume u: "client_string cfg (ReadContract a ''uri'' [Uint256 t]) = Inr (pre @ ''{id}'' @ post)"
    and first: "\<not> sublist ''{id}'' (pre @ ''{id'')"
  have "js_replace (pre @ ''{id}'' @ post) ''{id}'' (padStart (toString16 t) 64 CHR ''0'')
          = pre @ padStart (toString16 t) 64 CHR ''0'' @ post"
    using first by (intro js_replace_first) simp_all
  with u show "fetchTokenUri cfg a t Erc1155 w =
         (Inr (pre @ padStart (toString16 t) 64 CHR ''0'' @ post),
          w\<lparr>trace := trace w @ [ChainRead (ReadContract a ''uri'' [Uint256 t])]\<rparr>)"
    by (simp add: fetchTokenUri_erc1155_run)
qed

lemma fetchTokenUri_erc1155_absent:
  "client_string cfg (ReadContract a ''uri'' [Uint256 t]) = Inr u \<and> \<not> sublist ''{id}'' u
   \<longrightarrow> fetchTokenUri cfg a t Erc1155 w =
         (Inr u, w\<lparr>trace := trace w @ [ChainRead (ReadContract a ''uri'' [Uint256 t])]\<rparr>)"
  by (simp add: fetchTokenUri_erc1155_run js_replace_absent)

lemma tokenIdHex_uint256:
  "0 \<le> t \<and> t < 2 ^ 256
   \<longrightarrow> length (padStart (toString16 t) 64 CHR ''0'') = 64
       \<and> set (padStart (toString16 t) 64 CHR ''0'') \<subseteq> set ''0123456789abcdef''
       \<and> digits_value 16 (padStart (toString16 t) 64 CHR ''0'') = nat t"
  using tokenIdHex_props [of t] by blast

section \<open>The token URI of an ERC1155 token\<close>

text \<open>
  C6. For a token whose standard is ERC1155 the URI is read with the contract's
  \<^verbatim>\<open>uri\<close> function and the token id. When the answer holds \<^verbatim>\<open>{id}\<close>, its first
  occurrence (the text before it, with \<^verbatim>\<open>{id\<close> appended, holds none) is replaced by
  the token id in hexadecimal, padded with zeros to 64 places; an answer without
  \<^verbatim>\<open>{id}\<close> is returned as it is. For a token id that is a \<^verbatim>\<open>uint256\<close>, the type of
  the function's argument, the replacement is exactly 64 characters, all of them
  lower-case hexadecimal digits (so there is no \<^verbatim>\<open>0x\<close>), and its value is the
  token id.
\<close>

theorem erc1155_uri_template:
  "(client_string cfg (ReadContract a ''uri'' [Uint256 t]) = Inr (pre @ ''{id}'' @ post)
      \<and> \<not> sublist ''{id}'' (pre @ ''{id'')
    \<longrightarrow> fetchTokenUri cfg a t Erc1155 w =
          (Inr (pre @ padStart (toString16 t) 64 CHR ''0'' @ post),
           w\<lparr>trace := trace w @ [ChainRead (ReadContract a ''uri'' [Uint256 t])]\<rparr>))
   \<and> (client_string cfg (ReadContract a ''uri'' [Uint256 t]) = Inr u \<and> \<not> sublist ''{id}'' u
    \<longrightarrow> fetchTokenUri cfg a t Erc1155 w =
          (Inr u, w\<lparr>trace := trace w @ [ChainRead (ReadContract a ''uri'' [Uint256 t])]\<rparr>))
   \<and> (0 \<le> t \<and> t < 2 ^ 256
    \<longrightarrow> length (padStart (toString16 t) 64 CHR ''0'') = 64
        \<and> set (padStart (toString16 t) 64 CHR ''0'') \<subseteq> set ''0123456789abcdef''
        \<and> digits_value 16 (padStart (toString16 t) 64 CHR ''0'') = nat t)"
  by (intro conjI)
    (rule fetchTokenUri_erc1155_first fetchTokenUri_erc1155_absent tokenIdHex_uint256)+

text \<open>
  The answer \<^verbatim>\<open>https://x/{id}.json\<close> and the token id 255 give
  \<^verbatim>\<open>https://x/00...0ff.json\<close>, with 62 zeros; the 64 characters have the value 255.
\<close>

theorem erc1155_uri_template_witness:
  "fetchTokenUri demo_config ''0xabc'' 255 Erc1155 empty_world =
     (Inr (''https://x/'' @ replicate 62 CHR ''0'' @ ''ff.json''),
      empty_world\<lparr>trace := [ChainRead (ReadContract ''0xabc'' ''uri'' [Uint256 255])]\<rparr>)
   \<and> padStart (toString16 255) 64 CHR ''0'' = replicate 62 CHR ''0'' @ ''ff''
   \<and> digits_value 16 (padStart (toString16 255) 64 CHR ''0'') = 255"
  using erc1155_uri_template [of demo_config "''0xabc''" 255 "''https://x/''" "''.json''"
      empty_world "''unused''"]
  by (simp add: demo_config_def empty_world_def sublist_Cons_right padStart_def toString16_def
      hex_of_nat.simps)

section \<open>Lemmas on the routes\<close>

lemma isFresh_run: "\<exists>b. isFresh pf cfg ts w = (Inr b, w)"
  by (auto simp: isFresh_def io_return_def io_bind_def date_now_def split: option.split)

lemma fetchToken_run:
  "fetchToken cfg c t w =
     (if db_fails cfg (length (trace w)) then Inl StoreError
      else Inr (find (\<lambda>r. t_collection r = toLowerCase c \<and> t_tokenId r = t) (tokens w)),
      add_events [DbSelectToken (toLowerCase c) t] w)"
  by (simp add: fetchToken_def db_select_token_def log_event_add)

lemma fetchCollection_run:
  "fetchCollection cfg a w =
     (if db_fails cfg (length (trace w)) then Inl StoreError
      else Inr (find (\<lambda>r. c_collection r = toLowerCase a) (collections w)),
      add_events [DbSelectCollection (toLowerCase a)] w)"
  by (simp add: fetchCollection_def db_select_collection_def log_event_add)

lemma get_token_route_eq:
  "get_token_route pf cfg c t w =
     (case fetchToken cfg c t w of
        (Inl e, w1) \<Rightarrow> (Inl e, w1)
      | (Inr cached, w1) \<Rightarrow>
          if (case cached of
                None \<Rightarrow> False
              | Some r \<Rightarrow> fst (isFresh pf cfg (Some (t_updatedAt r)) w1) = Inr True)
          then (Inr (Json200 cached), w1)
          else
            (case updateToken pf cfg c t w1 of
               (Inl e, w2) \<Rightarrow>
                 (Inr (case cached of
                         Some r \<Rightarrow> Json200 (Some r)
                       | None \<Rightarrow> JsonError ''Failed to fetch token metadata'' 500), w2)
             | (Inr u, w2) \<Rightarrow>
                 (case fetchToken cfg c t w2 of
                    (Inr r, w3) \<Rightarrow> (Inr (Json200 r), w3)
                  | (Inl e, w3) \<Rightarrow>
                      (Inr (case cached of
                              Some r \<Rightarrow> Json200 (Some r)
                            | None \<Rightarrow> JsonError ''Failed to fetch token metadata'' 500), w3))))"
proof (cases "fetchToken cfg c t w")
  case (Pair res w1)
  show ?thesis
  proof (cases res)
    case (Inl e)
    with Pair show ?thesis
      by (simp add: get_token_route_def io_bind_def)
  next
    case (Inr cached)
    show ?thesis
    proof (cases cached)
      case None
      with Pair Inr show ?thesis
        by (simp add: get_token_route_def io_bind_def io_catch_def io_return_def
            split: prod.splits sum.splits)
    next
      case (Some r)
      obtain b where "isFresh pf cfg (Some (t_updatedAt r)) w1 = (Inr b, w1)"
        using isFresh_run by blast
      with Pair Inr Some show ?thesis
        by (cases b)
          (simp_all add: get_token_route_def io_bind_def io_catch_def io_return_def
            split: prod.splits sum.splits)
    qed
  qed
qed

lemma post_token_route_eq:
  "post_token_route pf cfg c t w =
     (case updateToken pf cfg c t w of
        (Inr u, w1) \<Rightarrow>
          (case fetchToken cfg c t w1 of
             (Inr r, w2) \<Rightarrow> (Inr (Json200 r), w2)
           | (Inl e, w2) \<Rightarrow>
               (case fetchToken cfg c t w2 of
                  (Inl e, w3) \<Rightarrow> (Inl e, w3)
                | (Inr cached, w3) \<Rightarrow>
                    (Inr (case cached of
                            Some r \<Rightarrow> Json200 (Some r)
                          | None \<Rightarrow> JsonError ''Failed to fetch token metadata'' 500), w3)))
      | (Inl e, w1) \<Rightarrow>
          (case fetchToken cfg c t w1 of
             (Inl e, w2) \<Rightarrow> (Inl e, w2)
           | (Inr cached, w2) \<Rightarrow>
               (Inr (case cached of
                       Some r \<Rightarrow> Json200 (Some r)
                     | None \<Rightarrow> JsonError ''Failed to fetch token metadata'' 500), w2)))"
  by (simp add: post_token_route_def io_bind_def io_catch_def io_return_def
      split: prod.splits sum.splits option.splits)

lemma get_token_fresh:
  assumes "fetchToken cfg c t w = (Inr (Some r), w1)"
    and "fst (isFresh pf cfg (Some (t_updatedAt r)) w1) = Inr True"
  shows "get_token_route pf cfg c t w = (Inr (Json200 (Some r)), w1)
         \<and> trace w1 = trace w @ [DbSelectToken (toLowerCase c) t]"
proof -
  from isFresh_run [of pf cfg "Some (t_updatedAt r)" w1] assms(2)
  have "isFresh pf cfg (Some (t_updatedAt r)) w1 = (Inr True, w1)" by auto
  with assms(1) have "get_token_route pf cfg c t w = (Inr (Json200 (Some r)), w1)"
    by (simp add: get_token_route_def io_bind_def io_return_def)
  moreover from assms(1) have "trace w1 = trace w @ [DbSelectToken (toLowerCase c) t]"
    by (auto simp: fetchToken_run)
  ultimately show ?thesis by simp
qed

lemma get_token_error_only_without_cache:
  assumes "get_token_route pf cfg c t w = (Inr (JsonError msg code), w')"
  shows "code = 500 \<and> fst (fetchToken cfg c t w) = Inr None
         \<and> find (\<lambda>r. t_collection r = toLowerCase c \<and> t_tokenId r = t) (tokens w) = None"
proof -
  show ?thesis
  proof (cases "fetchToken cfg c t w")
    case (Pair res w1)
    show ?thesis
    proof (cases res)
      case (Inl e)
      with Pair assms show ?thesis
        by (simp add: get_token_route_def io_bind_def)
    next
      case (Inr cached)
      show ?thesis
      proof (cases cached)
        case None
        with Pair Inr assms have "code = 500"
          by (auto simp: get_token_route_def io_bind_def io_return_def io_catch_def
              split: prod.splits sum.splits)
        moreover from Pair Inr None have "find (\<lambda>r. t_collection r = toLowerCase c \<and> t_tokenId r = t) (tokens w) = None"
          by (auto simp: fetchToken_run split: if_splits)
        ultimately show ?thesis using Pair Inr None by simp
      next
        case (Some r)
        obtain b where "isFresh pf cfg (Some (t_updatedAt r)) w1 = (Inr b, w1)"
          using isFresh_run by blast
        with Pair Inr Some assms show ?thesis
          by (auto simp: get_token_route_def io_bind_def io_return_def io_catch_def
              split: prod.splits sum.splits if_splits)
      qed
    qed
  qed
qed

lemma post_token_error_only_without_record:
  assumes "post_token_route pf cfg c t w = (Inr (JsonError msg code), w')"
  shows "code = 500
         \<and> find (\<lambda>r. t_collection r = toLowerCase c \<and> t_tokenId r = t) (tokens w') = None"
  using assms
  by (auto simp: post_token_route_def io_bind_def io_return_def io_catch_def fetchToken_run
      split: prod.splits sum.splits if_splits option.splits)

lemma get_collection_route_eq:
  "get_collection_route pf cfg a w =
     (case fetchCollection cfg a w of
        (Inl e, w1) \<Rightarrow> (Inl e, w1)
      | (Inr cached, w1) \<Rightarrow>
          if (case cached of
                None \<Rightarrow> False
              | Some r \<Rightarrow> fst (isFresh pf cfg (Some (c_updatedAt r)) w1) = Inr True)
          then (Inr (Json200 cached), w1)
          else
            (case updateCollection pf cfg a w1 of
               (Inl e, w2) \<Rightarrow>
                 (Inr (case cached of
                         Some r \<Rightarrow> Json200 (Some r)
                       | None \<Rightarrow> JsonError ''Failed to fetch collection metadata'' 500), w2)
             | (Inr u, w2) \<Rightarrow>
                 (case fetchCollection cfg a w2 of
                    (Inr r, w3) \<Rightarrow> (Inr (Json200 r), w3)
                  | (Inl e, w3) \<Rightarrow>
                      (Inr (case cached of
                              Some r \<Rightarrow> Json200 (Some r)
                            | None \<Rightarrow> JsonError ''Failed to fetch collection metadata'' 500), w3))))"
proof (cases "fetchCollection cfg a w")
  case (Pair res w1)
  show ?thesis
  proof (cases res)
    case (Inl e)
    with Pair show ?thesis
      by (simp add: get_collection_route_def io_bind_def)
  next
    case (Inr cached)
    show ?thesis
    proof (cases cached)
      case None
      with Pair Inr show ?thesis
        by (simp add: get_collection_route_def io_bind_def io_catch_def io_return_def
            split: prod.splits sum.splits)
    next
      case (Some r)
      obtain b where "isFresh pf cfg (Some (c_updatedAt r)) w1 = (Inr b, w1)"
        using isFresh_run by blast
      with Pair Inr Some show ?thesis
        by (cases b)
          (simp_all add: get_collection_route_def io_bind_def io_catch_def io_return_def
            split: prod.splits sum.splits)
    qed
  qed
qed

lemma post_collection_route_eq:
  "post_collection_route pf cfg a w =
     (case updateCollection pf cfg a w of
        (Inr u, w1) \<Rightarrow>
          (case fetchCollection cfg a w1 of
             (Inr r, w2) \<Rightarrow> (Inr (Json200 r), w2)
           | (Inl e, w2) \<Rightarrow>
               (case fetchCollection cfg a w2 of
                  (Inl e, w3) \<Rightarrow> (Inl e, w3)
                | (Inr cached, w3) \<Rightarrow>
                    (Inr (case cached of
                            Some r \<Rightarrow> Json200 (Some r)
                          | None \<Rightarrow> JsonError ''Failed to fetch collection metadata'' 500), w3)))
      | (Inl e, w1) \<Rightarrow>
          (case fetchCollection cfg a w1 of
             (Inl e, w2) \<Rightarrow> (Inl e, w2)
           | (Inr cached, w2) \<Rightarrow>
               (Inr (case cached of
                       Some r \<Rightarrow> Json200 (Some r)
                     | None \<Rightarrow> JsonError ''Failed to fetch collection metadata'' 500), w2)))"
  by (simp add: post_collection_route_def io_bind_def io_catch_def io_return_def
      split: prod.splits sum.splits option.splits)

lemma get_collection_fresh:
  assumes "fetchCollection cfg a w = (Inr (Some r), w1)"
    and "fst (isFresh pf cfg (Some (c_updatedAt r)) w1) = Inr True"
  shows "get_collection_route pf cfg a w = (Inr (Json200 (Some r)), w1)
         \<and> trace w1 = trace w @ [DbSelectCollection (toLowerCase a)]"
proof -
  from isFresh_run [of pf cfg "Some (c_updatedAt r)" w1] assms(2)
  have "isFresh pf cfg (Some (c_updatedAt r)) w1 = (Inr True, w1)" by auto
  with assms(1) have "get_collection_route pf cfg a w = (Inr (Json200 (Some r)), w1)"
    by (simp add: get_collection_route_def io_bind_def io_return_def)
  moreover from assms(1) have "trace w1 = trace w @ [DbSelectCollection (toLowerCase a)]"
    by (auto simp: fetchCollection_run)
  ultimately show ?thesis by simp
qed

lemma get_collection_error_only_without_cache:
  assumes "get_collection_route pf cfg a w = (Inr (JsonError msg code), w')"
  shows "code = 500 \<and> fst (fetchCollection cfg a w) = Inr None
         \<and> find (\<lambda>r. c_collection r = toLowerCase a) (collections w) = None"
proof -
  show ?thesis
  proof (cases "fetchCollection cfg a w")
    case (Pair res w1)
    show ?thesis
    proof (cases res)
      case (Inl e)
      with Pair assms show ?thesis
        by (simp add: get_collection_route_def io_bind_def)
    next
      case (Inr cached)
      show ?thesis
      proof (cases cached)
        case None
        with Pair Inr assms have "code = 500"
          by (auto simp: get_collection_route_def io_bind_def io_return_def io_catch_def
              split: prod.splits sum.splits)
        moreover from Pair Inr None have "find (\<lambda>r. c_collection r = toLowerCase a) (collections w) = None"
          by (auto simp: fetchCollection_run split: if_splits)
        ultimately show ?thesis using Pair Inr None by simp
      next
        case (Some r)
        obtain b where "isFresh pf cfg (Some (c_updatedAt r)) w1 = (Inr b, w1)"
          using isFresh_run by blast
        with Pair Inr Some assms show ?thesis
          by (auto simp: get_collection_route_def io_bind_def io_return_def io_catch_def
              split: prod.splits sum.splits if_splits)
      qed
    qed
  qed
qed

lemma post_collection_error_only_without_record:
  assumes "post_collection_route pf cfg a w = (Inr (JsonError msg code), w')"
  shows "code = 500
         \<and> find (\<lambda>r. c_collection r = toLowerCase a) (collections w') = None"
  using assms
  by (auto simp: post_collection_route_def io_bind_def io_return_def io_catch_def fetchCollection_run
      split: prod.splits sum.splits if_splits option.splits)

section \<open>The routes\<close>

lemmas string_defs =
  startsWith_def toLowerCase_def lower_char_def padStart_def toString16_def hex_of_nat.simps
  is_space_def trim_def digit_value_def is_digit_def digits_value_def parse_digits_def
  BigInt_def to_string_def truthy_def

lemmas uri_defs =
  resolveUri_def ipfs_gateway_def arweave_gateway_def or_default_def
  DEFAULT_IPFS_GATEWAY_def DEFAULT_ARWEAVE_GATEWAY_def fetchJson_def sum_bind_def
  get_prop_def nullish_def to_nullable_def opt_prop_def

lemmas io_defs =
  io_return_def io_throw_def io_lift_def io_bind_def io_catch_def log_event_def date_now_def
  readContract_bool_def readContract_string_def http_fetch_def
  db_select_token_def db_upsert_token_def db_select_collection_def db_upsert_collection_def

lemmas service_defs =
  cacheTtl_def DEFAULT_CACHE_TTL_def uriOptions_def ERC721_INTERFACE_ID_def
  ERC1155_INTERFACE_ID_def isFresh_def detectStandard_def fetchTokenUri_def fetchToken_def
  assign_token_locals_def token_metadata_def updateToken_def fetchCollection_def
  assign_collection_locals_def collection_metadata_def read_or_null_def chain_or_document_def
  updateCollection_def

lemmas route_defs =
  get_token_route_def post_token_route_def get_collection_route_def post_collection_route_def

lemmas demo_defs =
  demo_doc_def demo_platform_def demo_config_def demo_options_def empty_world_def
  old_token_def recent_token_def old_collection_def recent_collection_def token_world_def
  collection_world_def store_fails_at_def dead_chain_def store_fails_from_def
  refreshed_token_def refreshed_collection_def

lemma get_token_fresh_imp:
  "(fetchToken cfg c t w = (Inr (Some r), w1)
      \<and> fst (isFresh pf cfg (Some (t_updatedAt r)) w1) = Inr True
    \<longrightarrow> get_token_route pf cfg c t w = (Inr (Json200 (Some r)), w1)
        \<and> trace w1 = trace w @ [DbSelectToken (toLowerCase c) t])"
  by (intro impI, (elim conjE)?, rule get_token_fresh) assumption+

lemma get_token_error_only_without_cache_imp:
  "(get_token_route pf cfg c t w = (Inr (JsonError msg code), w')
    \<longrightarrow> code = 500 \<and> fst (fetchToken cfg c t w) = Inr None
        \<and> find (\<lambda>r. t_collection r = toLowerCase c \<and> t_tokenId r = t) (tokens w) = None)"
  by (intro impI, (elim conjE)?, rule get_token_error_only_without_cache) assumption+

lemma post_token_error_only_without_record_imp:
  "(post_token_route pf cfg c t w = (Inr (JsonError msg code), w')
    \<longrightarrow> code = 500
        \<and> find (\<lambda>r. t_collection r = toLowerCase c \<and> t_tokenId r = t) (tokens w') = None)"
  by (intro impI, (elim conjE)?, rule post_token_error_only_without_record) assumption+

lemma get_collection_fresh_imp:
  "(fetchCollection cfg a w = (Inr (Some cr), w1)
      \<and> fst (isFresh pf cfg (Some (c_updatedAt cr)) w1) = Inr True
    \<longrightarrow> get_collection_route pf cfg a w = (Inr (Json200 (Some cr)), w1)
        \<and> trace w1 = trace w @ [DbSelectCollection (toLowerCase a)])"
  by (intro impI, (elim conjE)?, rule get_collection_fresh) assumption+

lemma get_collection_error_only_without_cache_imp:
  "(get_collection_route pf cfg a w = (Inr (JsonError msg code), w')
    \<longrightarrow> code = 500 \<and> fst (fetchCollection cfg a w) = Inr None
        \<and> find (\<lambda>r. c_collection r = toLowerCase a) (collections w) = None)"
  by (intro impI, (elim conjE)?, rule get_collection_error_only_without_cache) assumption+

lemma post_collection_error_only_without_record_imp:
  "(post_collection_route pf cfg a w = (Inr (JsonError msg code), w')
    \<longrightarrow> code = 500 \<and> find (\<lambda>r. c_collection r = toLowerCase a) (collections w') = None)"
  by (intro impI, (elim conjE)?, rule post_collection_error_only_without_record) assumption+

text \<open>
  C1, as the code has it. A GET of a token or of a collection first reads the
  store; when that read throws, the exception leaves the handler. When the read
  returns a record that is fresh, the record is the reply and the read is the only
  call made. Otherwise a refresh is run: when it succeeds the store is read again and
  what it returns is the reply; when the refresh or the second read throws, the reply
  is the record read before (stale or not) if there was one, and the error reply with
  status 500 if there was none. An error reply is only ever given when the first read
  found no record. A POST runs the refresh first: when it succeeds the record then
  read is the reply; when the refresh or that read throws, the store is read once
  more, the record it returns is the reply, and the error reply with status 500 is
  given only when it returns none; when this last read throws, the exception leaves
  the handler.
\<close>

theorem routes_fall_back_to_cache:
  "(get_token_route pf cfg c t w =
     (case fetchToken cfg c t w of
        (Inl e, w1) \<Rightarrow> (Inl e, w1)
      | (Inr cached, w1) \<Rightarrow>
          if (case cached of
                None \<Rightarrow> False
              | Some r \<Rightarrow> fst (isFresh pf cfg (Some (t_updatedAt r)) w1) = Inr True)
          then (Inr (Json200 cached), w1)
          else
            (case updateToken pf cfg c t w1 of
               (Inl e, w2) \<Rightarrow>
                 (Inr (case cached of
                         Some r \<Rightarrow> Json200 (Some r)
                       | None \<Rightarrow> JsonError ''Failed to fetch token metadata'' 500), w2)
             | (Inr u, w2) \<Rightarrow>
                 (case fetchToken cfg c t w2 of
                    (Inr r, w3) \<Rightarrow> (Inr (Json200 r), w3)
                  | (Inl e, w3) \<Rightarrow>
                      (Inr (case cached of
                              Some r \<Rightarrow> Json200 (Some r)
                            | None \<Rightarrow> JsonError ''Failed to fetch token metadata'' 500), w3)))))
   \<and> ((fetchToken cfg c t w = (Inr (Some r), w1)
      \<and> fst (isFresh pf cfg (Some (t_updatedAt r)) w1) = Inr True
    \<longrightarrow> get_token_route pf cfg c t w = (Inr (Json200 (Some r)), w1)
        \<and> trace w1 = trace w @ [DbSelectToken (toLowerCase c) t]))
   \<and> ((get_token_route pf cfg c t w = (Inr (JsonError msg code), w')
    \<longrightarrow> code = 500 \<and> fst (fetchToken cfg c t w) = Inr None
        \<and> find (\<lambda>r. t_collection r = toLowerCase c \<and> t_tokenId r = t) (tokens w) = None))
   \<and> (post_token_route pf cfg c t w =
     (case updateToken pf cfg c t w of
        (Inr u, w1) \<Rightarrow>
          (case fetchToken cfg c t w1 of
             (Inr r, w2) \<Rightarrow> (Inr (Json200 r), w2)
           | (Inl e, w2) \<Rightarrow>
               (case fetchToken cfg c t w2 of
                  (Inl e, w3) \<Rightarrow> (Inl e, w3)
                | (Inr cached, w3) \<Rightarrow>
                    (Inr (case cached of
                            Some r \<Rightarrow> Json200 (Some r)
                          | None \<Rightarrow> JsonError ''Failed to fetch token metadata'' 500), w3)))
      | (Inl e, w1) \<Rightarrow>
          (case fetchToken cfg c t w1 of
             (Inl e, w2) \<Rightarrow> (Inl e, w2)
           | (Inr cached, w2) \<Rightarrow>
               (Inr (case cached of
                       Some r \<Rightarrow> Json200 (Some r)
                     | None \<Rightarrow> JsonError ''Failed to fetch token metadata'' 500), w2))))
   \<and> ((post_token_route pf cfg c t w = (Inr (JsonError msg code), w')
    \<longrightarrow> code = 500
        \<and> find (\<lambda>r. t_collection r = toLowerCase c \<and> t_tokenId r = t) (tokens w') = None))
   \<and> (get_collection_route pf cfg a w =
     (case fetchCollection cfg a w of
        (Inl e, w1) \<Rightarrow> (Inl e, w1)
      | (Inr cached, w1) \<Rightarrow>
          if (case cached of
                None \<Rightarrow> False
              | Some r \<Rightarrow> fst (isFresh pf cfg (Some (c_updatedAt r)) w1) = Inr True)
          then (Inr (Json200 cached), w1)
          else
            (case updateCollection pf cfg a w1 of
               (Inl e, w2) \<Rightarrow>
                 (Inr (case cached of
                         Some r \<Rightarrow> Json200 (Some r)
                       | None \<Rightarrow> JsonError ''Failed to fetch collection metadata'' 500), w2)
             | (Inr u, w2) \<Rightarrow>
                 (case fetchCollection cfg a w2 of
                    (Inr r, w3) \<Rightarrow> (Inr (Json200 r), w3)
                  | (Inl e, w3) \<Rightarrow>
                      (Inr (case cached of
                              Some r \<Rightarrow> Json200 (Some r)
                            | None \<Rightarrow> JsonError ''Failed to fetch collection metadata'' 500), w3)))))
   \<and> ((fetchCollection cfg a w = (Inr (Some cr), w1)
      \<and> fst (isFresh pf cfg (Some (c_updatedAt cr)) w1) = Inr True
    \<longrightarrow> get_collection_route pf cfg a w = (Inr (Json200 (Some cr)), w1)
        \<and> trace w1 = trace w @ [DbSelectCollection (toLowerCase a)]))
   \<and> ((get_collection_route pf cfg a w = (Inr (JsonError msg code), w')
    \<longrightarrow> code = 500 \<and> fst (fetchCollection cfg a w) = Inr None
        \<and> find (\<lambda>r. c_collection r = toLowerCase a) (collections w) = None))
   \<and> (post_collection_route pf cfg a w =
     (case updateCollection pf cfg a w of
        (Inr u, w1) \<Rightarrow>
          (case fetchCollection cfg a w1 of
             (Inr r, w2) \<Rightarrow> (Inr (Json200 r), w2)
           | (Inl e, w2) \<Rightarrow>
               (case fetchCollection cfg a w2 of
                  (Inl e, w3) \<Rightarrow> (Inl e, w3)
                | (Inr cached, w3) \<Rightarrow>
                    (Inr (case cached of
                            Some r \<Rightarrow> Json200 (Some r)
                          | None \<Rightarrow> JsonError ''Failed to fetch collection metadata'' 500), w3)))
      | (Inl e, w1) \<Rightarrow>
          (case fetchCollection cfg a w1 of
             (Inl e, w2) \<Rightarrow> (Inl e, w2)
           | (Inr cached, w2) \<Rightarrow>
               (Inr (case cached of
                       Some r \<Rightarrow> Json200 (Some r)
                     | None \<Rightarrow> JsonError ''Failed to fetch collection metadata'' 500), w2))))
   \<and> ((post_collection_route pf cfg a w = (Inr (JsonError msg code), w')
    \<longrightarrow> code = 500 \<and> find (\<lambda>r. c_collection r = toLowerCase a) (collections w') = None))"
  by (intro conjI)
    (rule get_token_route_eq get_token_fresh_imp get_token_error_only_without_cache_imp
       post_token_route_eq post_token_error_only_without_record_imp
       get_collection_route_eq get_collection_fresh_imp
       get_collection_error_only_without_cache_imp
       post_collection_route_eq post_collection_error_only_without_record_imp)+

text \<open>
  On the example collaborators, for the key \<^verbatim>\<open>0xABC\<close>, \<^verbatim>\<open>7\<close>. GET: a record
  written 1000 s ago is returned after the one read of the store; with no record, and
  with a stale record, the refresh runs (two probes, the URI read, the fetch of the
  document, the write) and the row it wrote is read and returned; when the write of
  the refresh fails, the stale record is returned, and with no record the reply is
  the error with status 500; when the first read fails, the exception leaves the
  handler. POST: the refreshed row is returned; when the write fails, the stored
  record, or the error with status 500; when the write and the read after it fail,
  the exception leaves the handler. The collection routes reply alike.
\<close>

theorem routes_fall_back_to_cache_witness:
  "get_token_route demo_platform demo_config ''0xABC'' ''7'' (token_world recent_token)
     = (Inr (Json200 (Some recent_token)),
        (token_world recent_token)\<lparr>trace := [DbSelectToken ''0xabc'' ''7'']\<rparr>)
   \<and> get_token_route demo_platform demo_config ''0xABC'' ''7'' empty_world
     = (Inr (Json200 (Some refreshed_token)),
        \<lparr>tokens = [refreshed_token], collections = [],
         trace =
           [DbSelectToken ''0xabc'' ''7'',
            ChainRead (ReadContract ''0xabc'' ''supportsInterface'' [Bytes4 ''0x80ac58cd'']),
            ChainRead (ReadContract ''0xabc'' ''supportsInterface'' [Bytes4 ''0xd9b67a26'']),
            ChainRead (ReadContract ''0xabc'' ''uri'' [Uint256 7]),
            HttpGet (''https://x/'' @ replicate 63 CHR ''0'' @ ''7.json''),
            DbUpsertToken refreshed_token,
            DbSelectToken ''0xabc'' ''7'']\<rparr>)
   \<and> fst (get_token_route demo_platform demo_config ''0xABC'' ''7'' (token_world old_token))
     = Inr (Json200 (Some refreshed_token))
   \<and> fst (get_token_route demo_platform (store_fails_at 5) ''0xABC'' ''7'' (token_world old_token))
     = Inr (Json200 (Some old_token))
   \<and> fst (get_token_route demo_platform (store_fails_at 5) ''0xABC'' ''7'' empty_world)
     = Inr (JsonError ''Failed to fetch token metadata'' 500)
   \<and> fst (get_token_route demo_platform (store_fails_at 6) ''0xABC'' ''7'' (token_world old_token))
     = Inr (Json200 (Some old_token))
   \<and> fst (get_token_route demo_platform (store_fails_at 0) ''0xABC'' ''7'' (token_world recent_token))
     = Inl StoreError
   \<and> fst (post_token_route demo_platform demo_config ''0xABC'' ''7'' (token_world old_token))
     = Inr (Json200 (Some refreshed_token))
   \<and> fst (post_token_route demo_platform (store_fails_at 4) ''0xABC'' ''7'' (token_world old_token))
     = Inr (Json200 (Some old_token))
   \<and> fst (post_token_route demo_platform (store_fails_at 4) ''0xABC'' ''7'' empty_world)
     = Inr (JsonError ''Failed to fetch token metadata'' 500)
   \<and> fst (post_token_route demo_platform (store_fails_from 4) ''0xABC'' ''7'' (token_world old_token))
     = Inl StoreError
   \<and> get_collection_route demo_platform demo_config ''0xABC'' (collection_world recent_collection)
     = (Inr (Json200 (Some recent_collection)),
        (collection_world recent_collection)\<lparr>trace := [DbSelectCollection ''0xabc'']\<rparr>)
   \<and> fst (get_collection_route demo_platform demo_config ''0xABC''
            (collection_world old_collection))
     = Inr (Json200 (Some refreshed_collection))
   \<and> fst (get_collection_route demo_platform demo_config ''0xABC'' empty_world)
     = Inr (Json200 (Some refreshed_collection))
   \<and> fst (get_collection_route demo_platform (store_fails_at 8) ''0xABC''
            (collection_world old_collection))
     = Inr (Json200 (Some old_collection))
   \<and> fst (get_collection_route demo_platform (store_fails_at 8) ''0xABC'' empty_world)
     = Inr (JsonError ''Failed to fetch collection metadata'' 500)
   \<and> fst (get_collection_route demo_platform (store_fails_at 0) ''0xABC''
            (collection_world recent_collection))
     = Inl StoreError
   \<and> fst (post_collection_route demo_platform demo_config ''0xABC''
            (collection_world old_collection))
     = Inr (Json200 (Some refreshed_collection))
   \<and> fst (post_collection_route demo_platform (store_fails_at 7) ''0xABC''
            (collection_world old_collection))
     = Inr (Json200 (Some old_collection))
   \<and> fst (post_collection_route demo_platform (store_fails_at 7) ''0xABC'' empty_world)
     = Inr (JsonError ''Failed to fetch collection metadata'' 500)
   \<and> fst (post_collection_route demo_platform (store_fails_from 7) ''0xABC''
            (collection_world old_collection))
     = Inl StoreError"
  using routes_fall_back_to_cache [where pf = demo_platform and cfg = demo_config
      and c = "''0xABC''" and t = "''7''" and w = "token_world recent_token" and r = recent_token
      and ?w1.0 = "(token_world recent_token)\<lparr>trace := [DbSelectToken ''0xabc'' ''7'']\<rparr>"
      and a = "''0xABC''"]
  by (simp add: string_defs uri_defs io_defs service_defs route_defs demo_defs Let_def)

text \<open>
  C1 as stated fails when the store is out. The stored record of \<^verbatim>\<open>0xabc\<close>, \<^verbatim>\<open>7\<close>
  exists; in a POST the write of the refresh fails, the read in the handler's
  \<^verbatim>\<open>catch\<close> fails too, and the record is not the reply: the exception leaves the
  handler. In a GET whose first read fails, the fresh record that is stored is not
  returned either.
\<close>

theorem routes_store_outage_counterexample:
  "fst (updateToken demo_platform (store_fails_from 4) ''0xABC'' ''7'' (token_world old_token))
     = Inl StoreError
   \<and> find (\<lambda>r. t_collection r = ''0xabc'' \<and> t_tokenId r = ''7'')
        (tokens (snd (post_token_route demo_platform (store_fails_from 4) ''0xABC'' ''7''
                        (token_world old_token))))
     = Some old_token
   \<and> fst (post_token_route demo_platform (store_fails_from 4) ''0xABC'' ''7''
            (token_world old_token))
     \<noteq> Inr (Json200 (Some old_token))
   \<and> fst (post_token_route demo_platform (store_fails_from 4) ''0xABC'' ''7''
            (token_world old_token))
     = Inl StoreError
   \<and> find (\<lambda>r. t_collection r = ''0xabc'' \<and> t_tokenId r = ''7'')
        (tokens (token_world recent_token))
     = Some recent_token
   \<and> fst (isFresh demo_platform (store_fails_from 0) (Some (t_updatedAt recent_token))
            (token_world recent_token))
     = Inr True
   \<and> fst (get_token_route demo_platform (store_fails_from 0) ''0xABC'' ''7''
            (token_world recent_token))
     = Inl StoreError"
  by (simp add: string_defs uri_defs io_defs service_defs route_defs demo_defs Let_def)

section \<open>Lemmas on refreshing a token\<close>

lemma is_digit_10: "is_digit 10 c \<longleftrightarrow> c \<in> set ''0123456789''"
  by (auto simp: is_digit_def digit_value_def split: if_splits)

lemma decimal_not_space: "is_digit 10 c \<Longrightarrow> \<not> is_space c"
  by (auto simp: is_digit_10 is_space_def)

lemma trim_decimal:
  assumes "t \<noteq> []" and "list_all (is_digit 10) t"
  shows "trim t = t"
proof -
  from assms obtain c cs where t: "t = c # cs" by (cases t) auto
  with assms(2) have "\<not> is_space c" by (simp add: decimal_not_space)
  with t have 1: "dropWhile is_space t = t" by simp
  from assms have "is_digit 10 (last t)"
    by (metis last_in_set list_all_iff)
  then have "\<not> is_space (hd (rev t))"
    using assms(1) by (simp add: hd_rev decimal_not_space)
  then have "dropWhile is_space (rev t) = rev t"
    using assms(1) by (cases "rev t") auto
  with 1 show ?thesis by (simp add: trim_def)
qed

lemma BigInt_decimal:
  assumes "t \<noteq> []" and "list_all (is_digit 10) t"
  shows "BigInt t = Inr (int (digits_value 10 t))"
proof -
  have p: "parse_digits 10 t = Inr (int (digits_value 10 t))"
    using assms by (simp add: parse_digits_def)
  show ?thesis
  proof (cases t)
    case Nil
    with assms show ?thesis by simp
  next
    case (Cons c1 cs)
    show ?thesis
    proof (cases cs)
      case Nil
      with Cons p trim_decimal [OF assms] show ?thesis
        by (simp add: BigInt_def)
    next
      case (Cons c2 cs')
      from assms(2) \<open>t = c1 # cs\<close> Cons have "c1 \<in> set ''0123456789''" "c2 \<in> set ''0123456789''"
        by (simp_all add: is_digit_10)
      then have "c1 \<noteq> CHR ''+''" "c1 \<noteq> CHR ''-''"
        "c2 \<noteq> CHR ''x''" "c2 \<noteq> CHR ''X''" "c2 \<noteq> CHR ''o''" "c2 \<noteq> CHR ''O''"
        "c2 \<noteq> CHR ''b''" "c2 \<noteq> CHR ''B''"
        by auto
      with Cons \<open>t = c1 # cs\<close> p trim_decimal [OF assms] show ?thesis
        by (simp add: BigInt_def)
    qed
  qed
qed


lemma token_metadata_fst:
  "fst (token_metadata pf cfg uri w) =
     Inr (if truthy uri
          then (case fst (fetchJson pf (to_string uri) (Some (uriOptions cfg)) w) of
                  Inl e \<Rightarrow> \<lparr>l_name = None, l_description = None, l_image = None,
                             l_animationUrl = None, l_data = None\<rparr>
                | Inr m \<Rightarrow> assign_token_locals m
                             \<lparr>l_name = None, l_description = None, l_image = None,
                              l_animationUrl = None, l_data = None\<rparr>)
          else \<lparr>l_name = None, l_description = None, l_image = None,
                 l_animationUrl = None, l_data = None\<rparr>)"
  by (auto simp: token_metadata_def Let_def io_catch_def io_bind_def io_return_def
      split: prod.splits sum.splits)

lemma updateToken_run:
  assumes "BigInt t = Inr n"
  shows "\<exists>std uri l evs.
      (\<forall>w. updateToken pf cfg c t w =
         db_upsert_token cfg
           \<lparr>t_collection = toLowerCase c, t_tokenId = t, t_tokenStandard = std,
            t_tokenUri = uri, t_name = l_name l, t_description = l_description l,
            t_image = l_image l, t_animationUrl = l_animationUrl l, t_data = l_data l,
            t_updatedAt = Date_now pf (length (trace w) + length evs) div 1000\<rparr>
           (add_events evs w))
      \<and> (\<forall>w. fst (detectStandard cfg (toLowerCase c) w) = Inr std)
      \<and> (\<forall>w. uri = (case fst (fetchTokenUri cfg (toLowerCase c) n std w) of
                       Inl e \<Rightarrow> None | Inr u \<Rightarrow> Some u))
      \<and> (\<forall>w. fst (token_metadata pf cfg uri w) = Inr l)"
proof -
  obtain std e1 where 1: "\<And>w. detectStandard cfg (toLowerCase c) w = (Inr std, add_events e1 w)"
    using total_io_run [OF total_detectStandard] by blast
  obtain r2 e2 where 2: "\<And>w. fetchTokenUri cfg (toLowerCase c) n std w = (r2, add_events e2 w)"
    using pure_fetchTokenUri [of cfg "toLowerCase c" n std]
    unfolding pure_io_def logs_only_def by blast
  define uri where "uri = (case r2 of Inl e \<Rightarrow> None | Inr u \<Rightarrow> Some u)"
  obtain l e3 where 3: "\<And>w. token_metadata pf cfg uri w = (Inr l, add_events e3 w)"
    using total_io_run [OF total_token_metadata] by blast
  have "\<forall>w. updateToken pf cfg c t w =
         db_upsert_token cfg
           \<lparr>t_collection = toLowerCase c, t_tokenId = t, t_tokenStandard = std,
            t_tokenUri = uri, t_name = l_name l, t_description = l_description l,
            t_image = l_image l, t_animationUrl = l_animationUrl l, t_data = l_data l,
            t_updatedAt = Date_now pf (length (trace w) + length (e1 @ e2 @ e3)) div 1000\<rparr>
           (add_events (e1 @ e2 @ e3) w)"
  proof (cases r2)
    case (Inl e)
    then have u: "uri = None" by (simp add: uri_def)
    from assms Inl show ?thesis
      by (simp add: updateToken_def Let_def io_bind_def io_lift_def io_catch_def io_return_def
          date_now_def 1 2 3 [unfolded u] u add.assoc)
  next
    case (Inr b)
    then have u: "uri = Some b" by (simp add: uri_def)
    from assms Inr show ?thesis
      by (simp add: updateToken_def Let_def io_bind_def io_lift_def io_catch_def io_return_def
          date_now_def 1 2 3 [unfolded u] u add.assoc)
  qed
  moreover have "\<forall>w. fst (detectStandard cfg (toLowerCase c) w) = Inr std"
    by (simp add: 1)
  moreover have "\<forall>w. uri = (case fst (fetchTokenUri cfg (toLowerCase c) n std w) of
                       Inl e \<Rightarrow> None | Inr u \<Rightarrow> Some u)"
    by (simp add: 2 uri_def)
  moreover have "\<forall>w. fst (token_metadata pf cfg uri w) = Inr l"
    by (simp add: 3)
  ultimately show ?thesis by blast
qed

lemma upsert_token_find:
  "find (\<lambda>r. t_collection r = t_collection v \<and> t_tokenId r = t_tokenId v) (upsert_token v rs)
     = Some v"
  by (induction rs) auto

lemma upsert_token_find_other:
  "(c, t) \<noteq> (t_collection v, t_tokenId v) \<Longrightarrow>
   find (\<lambda>r. t_collection r = c \<and> t_tokenId r = t) (upsert_token v rs)
     = find (\<lambda>r. t_collection r = c \<and> t_tokenId r = t) rs"
  by (induction rs) auto

lemma upsert_token_keys:
  "map (\<lambda>r. (t_collection r, t_tokenId r)) (upsert_token v rs) =
     (if (t_collection v, t_tokenId v) \<in> set (map (\<lambda>r. (t_collection r, t_tokenId r)) rs)
      then map (\<lambda>r. (t_collection r, t_tokenId r)) rs
      else map (\<lambda>r. (t_collection r, t_tokenId r)) rs @ [(t_collection v, t_tokenId v)])"
  by (induction rs) auto


lemma db_upsert_token_run:
  "db_upsert_token cfg v w =
     (if db_fails cfg (length (trace w)) then Inl StoreError else Inr (),
      add_events [DbUpsertToken v]
        (if db_fails cfg (length (trace w)) then w else w\<lparr>tokens := upsert_token v (tokens w)\<rparr>))"
  by (simp add: db_upsert_token_def log_event_add)

section \<open>A token refresh fails only when the store does\<close>

text \<open>
  C3. For a token id that is a nonempty string of decimal digits, \<^verbatim>\<open>updateToken\<close>
  always reaches its write to the store, with a row for the lower-cased collection
  and the token id, and its result is the result of that write: an exception only
  when the write fails. A failed read of the token URI leaves the URI and every
  metadata field absent; a failed fetch or parse of the document leaves every
  metadata field absent and keeps the URI. No other table content changes before
  the write.
\<close>

theorem updateToken_fails_only_on_store_write:
  assumes "t \<noteq> []" and "list_all (is_digit 10) t"
  shows "\<exists>row w1.
      updateToken pf cfg c t w = db_upsert_token cfg row w1
      \<and> tokens w1 = tokens w \<and> collections w1 = collections w
      \<and> t_collection row = toLowerCase c \<and> t_tokenId row = t
      \<and> fst (updateToken pf cfg c t w)
          = (if db_fails cfg (length (trace w1)) then Inl StoreError else Inr ())
      \<and> last (trace (snd (updateToken pf cfg c t w))) = DbUpsertToken row
      \<and> ((\<exists>e. fst (fetchTokenUri cfg (toLowerCase c) (int (digits_value 10 t))
                     (t_tokenStandard row) w) = Inl e)
          \<longrightarrow> t_tokenUri row = None \<and> t_name row = None \<and> t_description row = None
              \<and> t_image row = None \<and> t_animationUrl row = None \<and> t_data row = None)
      \<and> (\<forall>u. t_tokenUri row = Some u
               \<and> (\<exists>e. fst (fetchJson pf u (Some (uriOptions cfg)) w) = Inl e)
          \<longrightarrow> t_name row = None \<and> t_description row = None \<and> t_image row = None
              \<and> t_animationUrl row = None \<and> t_data row = None)"
proof -
  from updateToken_run [OF BigInt_decimal [OF assms], of pf cfg c]
  obtain std uri l evs where
    run: "\<And>w. updateToken pf cfg c t w =
         db_upsert_token cfg
           \<lparr>t_collection = toLowerCase c, t_tokenId = t, t_tokenStandard = std,
            t_tokenUri = uri, t_name = l_name l, t_description = l_description l,
            t_image = l_image l, t_animationUrl = l_animationUrl l, t_data = l_data l,
            t_updatedAt = Date_now pf (length (trace w) + length evs) div 1000\<rparr>
           (add_events evs w)"
    and uri: "\<And>w. uri = (case fst (fetchTokenUri cfg (toLowerCase c) (int (digits_value 10 t)) std w) of
                       Inl e \<Rightarrow> None | Inr u \<Rightarrow> Some u)"
    and l: "\<And>w. fst (token_metadata pf cfg uri w) = Inr l"
    by blast
  let ?row = "\<lparr>t_collection = toLowerCase c, t_tokenId = t, t_tokenStandard = std,
            t_tokenUri = uri, t_name = l_name l, t_description = l_description l,
            t_image = l_image l, t_animationUrl = l_animationUrl l, t_data = l_data l,
            t_updatedAt = Date_now pf (length (trace w) + length evs) div 1000\<rparr>"
  have a: "(\<exists>e. fst (fetchTokenUri cfg (toLowerCase c) (int (digits_value 10 t)) std w) = Inl e)
          \<longrightarrow> uri = None \<and> l_name l = None \<and> l_description l = None
              \<and> l_image l = None \<and> l_animationUrl l = None \<and> l_data l = None"
  proof
    assume "\<exists>e. fst (fetchTokenUri cfg (toLowerCase c) (int (digits_value 10 t)) std w) = Inl e"
    with uri [of w] have u: "uri = None" by auto
    with l [of w] show "uri = None \<and> l_name l = None \<and> l_description l = None
              \<and> l_image l = None \<and> l_animationUrl l = None \<and> l_data l = None"
      by (auto simp: token_metadata_fst truthy_def)
  qed
  have b: "\<forall>u. uri = Some u \<and> (\<exists>e. fst (fetchJson pf u (Some (uriOptions cfg)) w) = Inl e)
          \<longrightarrow> l_name l = None \<and> l_description l = None \<and> l_image l = None
              \<and> l_animationUrl l = None \<and> l_data l = None"
    using l [of w] by (auto simp: token_metadata_fst to_string_def split: if_splits)
  have "updateToken pf cfg c t w = db_upsert_token cfg ?row (add_events evs w)"
    by (rule run)
  moreover have "fst (updateToken pf cfg c t w)
          = (if db_fails cfg (length (trace (add_events evs w))) then Inl StoreError else Inr ())"
    by (simp add: run db_upsert_token_run)
  moreover have "last (trace (snd (updateToken pf cfg c t w))) = DbUpsertToken ?row"
    by (simp add: run db_upsert_token_run)
  ultimately show ?thesis
    using a b
    by (intro exI [of _ ?row] exI [of _ "add_events evs w"]) simp
qed

text \<open>
  A chain on which every call fails: the refresh of \<^verbatim>\<open>0xABC\<close>, \<^verbatim>\<open>7\<close> writes the row
  with standard Unknown and nothing else, and succeeds. With the example chain and a
  store whose write fails, the refresh throws the store's error.
\<close>

theorem updateToken_fails_only_on_store_write_witness:
  "updateToken demo_platform dead_chain ''0xABC'' ''7'' empty_world =
     (Inr (),
      \<lparr>tokens = [\<lparr>t_collection = ''0xabc'', t_tokenId = ''7'', t_tokenStandard = Unknown,
                   t_tokenUri = None, t_name = None, t_description = None, t_image = None,
                   t_animationUrl = None, t_data = None, t_updatedAt = 1700000000\<rparr>],
       collections = [],
       trace = [ChainRead (ReadContract ''0xabc'' ''supportsInterface'' [Bytes4 ''0x80ac58cd'']),
                ChainRead (ReadContract ''0xabc'' ''supportsInterface'' [Bytes4 ''0xd9b67a26'']),
                ChainRead (ReadContract ''0xabc'' ''tokenURI'' [Uint256 7]),
                DbUpsertToken
                  \<lparr>t_collection = ''0xabc'', t_tokenId = ''7'', t_tokenStandard = Unknown,
                   t_tokenUri = None, t_name = None, t_description = None, t_image = None,
                   t_animationUrl = None, t_data = None, t_updatedAt = 1700000000\<rparr>]\<rparr>)
   \<and> fst (updateToken demo_platform (store_fails_at 4) ''0xABC'' ''7'' empty_world)
       = Inl StoreError"
  using updateToken_fails_only_on_store_write [of "''7''" demo_platform dead_chain "''0xABC''" empty_world]
  by (simp add: string_defs uri_defs io_defs service_defs demo_defs Let_def)

section \<open>Lemmas on refreshing a collection and on the write of a refresh\<close>

lemma read_or_null_run:
  "read_or_null cfg c w =
     (Inr (case client_string cfg c of Inl e \<Rightarrow> None | Inr s \<Rightarrow> Some s),
      add_events [ChainRead c] w)"
  by (simp add: read_or_null_def io_catch_def io_bind_def io_return_def readContract_string_def
      log_event_add split: sum.split)

lemma collection_metadata_fst:
  "fst (collection_metadata pf cfg uri w) =
     Inr (if truthy uri
          then (case fst (fetchJson pf (to_string uri) (Some (uriOptions cfg)) w) of
                  Inl e \<Rightarrow> \<lparr>k_description = None, k_image = None, k_data = None\<rparr>
                | Inr m \<Rightarrow> assign_collection_locals m
                             \<lparr>k_description = None, k_image = None, k_data = None\<rparr>)
          else \<lparr>k_description = None, k_image = None, k_data = None\<rparr>)"
  by (auto simp: collection_metadata_def Let_def io_catch_def io_bind_def io_return_def
      split: prod.splits sum.splits)

lemma assign_collection_locals_data:
  "k_data (assign_collection_locals m l0) = to_nullable m"
  by (simp add: assign_collection_locals_def Let_def split: sum.split)

lemma to_nullable_not_null: "to_nullable m \<noteq> Some JNull"
  by (simp add: to_nullable_def nullish_def)

lemma collection_metadata_data:
  "fst (collection_metadata pf cfg uri w) = Inr l \<Longrightarrow>
   k_data l =
     (if truthy uri
      then (case fst (fetchJson pf (to_string uri) (Some (uriOptions cfg)) w) of
              Inl e \<Rightarrow> None | Inr m \<Rightarrow> to_nullable m)
      else None)"
  by (auto simp: collection_metadata_fst assign_collection_locals_data split: sum.splits)

lemma collection_metadata_data_not_null:
  "fst (collection_metadata pf cfg uri w) = Inr l \<Longrightarrow> k_data l \<noteq> Some JNull"
  by (auto simp: collection_metadata_data to_nullable_not_null split: sum.splits if_splits)

lemma chain_or_document_value:
  "d \<noteq> Some JNull \<Longrightarrow>
   chain_or_document s d k =
     Inr (case s of
            Some v \<Rightarrow> Some (JStr v)
          | None \<Rightarrow> (case d of
                       Some (JObj kvs) \<Rightarrow> nullish (map_of kvs k)
                     | _ \<Rightarrow> None))"
  by (auto simp: chain_or_document_def opt_prop_def get_prop_def sum_bind_def nullish_def
      split: option.splits json.splits)

lemma updateCollection_run:
  "\<exists>std l evs.
      (\<forall>w. updateCollection pf cfg a w =
         db_upsert_collection cfg
           \<lparr>c_collection = toLowerCase a, c_tokenStandard = std,
            c_name = (case client_string cfg (ReadContract (toLowerCase a) ''name'' []) of
                        Inr s \<Rightarrow> Some (JStr s)
                      | Inl e \<Rightarrow> (case k_data l of
                                    Some (JObj kvs) \<Rightarrow> nullish (map_of kvs ''name'')
                                  | _ \<Rightarrow> None)),
            c_symbol = (case client_string cfg (ReadContract (toLowerCase a) ''symbol'' []) of
                          Inr s \<Rightarrow> Some (JStr s)
                        | Inl e \<Rightarrow> (case k_data l of
                                      Some (JObj kvs) \<Rightarrow> nullish (map_of kvs ''symbol'')
                                    | _ \<Rightarrow> None)),
            c_owner = (case client_string cfg (ReadContract (toLowerCase a) ''owner'' []) of
                         Inr s \<Rightarrow> Some (toLowerCase s) | Inl e \<Rightarrow> None),
            c_contractUri = (case client_string cfg (ReadContract (toLowerCase a) ''contractURI'' []) of
                               Inr s \<Rightarrow> Some s | Inl e \<Rightarrow> None),
            c_description = k_description l, c_image = k_image l, c_data = k_data l,
            c_updatedAt = Date_now pf (length (trace w) + length evs) div 1000\<rparr>
           (add_events evs w))
      \<and> (\<forall>w. fst (detectStandard cfg (toLowerCase a) w) = Inr std)
      \<and> (\<forall>w. fst (collection_metadata pf cfg
                 (case client_string cfg (ReadContract (toLowerCase a) ''contractURI'' []) of
                    Inr s \<Rightarrow> Some s | Inl e \<Rightarrow> None) w) = Inr l)"
proof -
  define cu where "cu = (case client_string cfg (ReadContract (toLowerCase a) ''contractURI'' []) of
                    Inr s \<Rightarrow> Some s | Inl e \<Rightarrow> None)"
  obtain std e1 where 1: "\<And>w. detectStandard cfg (toLowerCase a) w = (Inr std, add_events e1 w)"
    using total_io_run [OF total_detectStandard] by blast
  obtain l e2 where 2: "\<And>w. collection_metadata pf cfg cu w = (Inr l, add_events e2 w)"
    using total_io_run [OF total_collection_metadata] by blast
  from 2 have "fst (collection_metadata pf cfg cu w) = Inr l" for w by simp
  then have nn: "k_data l \<noteq> Some JNull"
    by (rule collection_metadata_data_not_null)
  let ?evs = "[ChainRead (ReadContract (toLowerCase a) ''name'' []),
               ChainRead (ReadContract (toLowerCase a) ''symbol'' []),
               ChainRead (ReadContract (toLowerCase a) ''owner'' []),
               ChainRead (ReadContract (toLowerCase a) ''contractURI'' [])] @ e1 @ e2"
  have "\<forall>w. updateCollection pf cfg a w =
         db_upsert_collection cfg
           \<lparr>c_collection = toLowerCase a, c_tokenStandard = std,
            c_name = (case client_string cfg (ReadContract (toLowerCase a) ''name'' []) of
                        Inr s \<Rightarrow> Some (JStr s)
                      | Inl e \<Rightarrow> (case k_data l of
                                    Some (JObj kvs) \<Rightarrow> nullish (map_of kvs ''name'')
                                  | _ \<Rightarrow> None)),
            c_symbol = (case client_string cfg (ReadContract (toLowerCase a) ''symbol'' []) of
                          Inr s \<Rightarrow> Some (JStr s)
                        | Inl e \<Rightarrow> (case k_data l of
                                      Some (JObj kvs) \<Rightarrow> nullish (map_of kvs ''symbol'')
                                    | _ \<Rightarrow> None)),
            c_owner = (case client_string cfg (ReadContract (toLowerCase a) ''owner'' []) of
                         Inr s \<Rightarrow> Some (toLowerCase s) | Inl e \<Rightarrow> None),
            c_contractUri = cu,
            c_description = k_description l, c_image = k_image l, c_data = k_data l,
            c_updatedAt = Date_now pf (length (trace w) + length ?evs) div 1000\<rparr>
           (add_events ?evs w)"
    by (simp add: updateCollection_def Let_def io_bind_def io_lift_def date_now_def
        read_or_null_run 1 2 [unfolded cu_def] cu_def chain_or_document_value [OF nn] add.assoc
        split: sum.split)
  moreover have "\<forall>w. fst (detectStandard cfg (toLowerCase a) w) = Inr std"
    by (simp add: 1)
  moreover have "\<forall>w. fst (collection_metadata pf cfg cu w) = Inr l"
    by (simp add: 2)
  ultimately show ?thesis
    unfolding cu_def by blast
qed


lemma db_upsert_collection_run:
  "db_upsert_collection cfg v w =
     (if db_fails cfg (length (trace w)) then Inl StoreError else Inr (),
      add_events [DbUpsertCollection v]
        (if db_fails cfg (length (trace w)) then w
         else w\<lparr>collections := upsert_collection v (collections w)\<rparr>))"
  by (simp add: db_upsert_collection_def log_event_add)

lemma upsert_collection_find:
  "find (\<lambda>r. c_collection r = c_collection v) (upsert_collection v rs) = Some v"
  by (induction rs) auto

lemma upsert_collection_find_other:
  "k \<noteq> c_collection v \<Longrightarrow>
   find (\<lambda>r. c_collection r = k) (upsert_collection v rs) = find (\<lambda>r. c_collection r = k) rs"
  by (induction rs) auto

lemma upsert_collection_keys:
  "map c_collection (upsert_collection v rs) =
     (if c_collection v \<in> set (map c_collection rs) then map c_collection rs
      else map c_collection rs @ [c_collection v])"
  by (induction rs) auto

lemma updateToken_success_decimal:
  assumes "updateToken pf cfg c t w = (Inr (), w')"
  shows "\<exists>n. BigInt t = Inr n"
proof (cases "BigInt t")
  case (Inl e)
  with assms show ?thesis
    by (simp add: updateToken_def Let_def io_bind_def io_lift_def)
next
  case (Inr n)
  then show ?thesis by blast
qed

lemma updateToken_written:
  assumes "updateToken pf cfg c t w = (Inr (), w')"
  shows "\<exists>row. tokens w' = upsert_token row (tokens w) \<and> collections w' = collections w
           \<and> t_collection row = toLowerCase c \<and> t_tokenId row = t
           \<and> t_updatedAt row = Date_now pf (length (trace w') - 1) div 1000
           \<and> last (trace w') = DbUpsertToken row
           \<and> find (\<lambda>r. t_collection r = toLowerCase c \<and> t_tokenId r = t) (tokens w') = Some row"
proof -
  from updateToken_success_decimal [OF assms] obtain n where "BigInt t = Inr n" ..
  from updateToken_run [OF this, of pf cfg c]
  obtain std uri l evs where
    run: "\<And>w. updateToken pf cfg c t w =
         db_upsert_token cfg
           \<lparr>t_collection = toLowerCase c, t_tokenId = t, t_tokenStandard = std,
            t_tokenUri = uri, t_name = l_name l, t_description = l_description l,
            t_image = l_image l, t_animationUrl = l_animationUrl l, t_data = l_data l,
            t_updatedAt = Date_now pf (length (trace w) + length evs) div 1000\<rparr>
           (add_events evs w)"
    and "\<And>w. fst (detectStandard cfg (toLowerCase c) w) = Inr std"
    and "\<And>w. uri = (case fst (fetchTokenUri cfg (toLowerCase c) n std w) of
                       Inl e \<Rightarrow> None | Inr u \<Rightarrow> Some u)"
    and "\<And>w. fst (token_metadata pf cfg uri w) = Inr l"
    by blast
  let ?row = "\<lparr>t_collection = toLowerCase c, t_tokenId = t, t_tokenStandard = std,
            t_tokenUri = uri, t_name = l_name l, t_description = l_description l,
            t_image = l_image l, t_animationUrl = l_animationUrl l, t_data = l_data l,
            t_updatedAt = Date_now pf (length (trace w) + length evs) div 1000\<rparr>"
  from assms have w': "w' = add_events [DbUpsertToken ?row]
                          ((add_events evs w)\<lparr>tokens := upsert_token ?row (tokens w)\<rparr>)"
    by (simp add: run db_upsert_token_run split: if_splits)
  have "find (\<lambda>r. t_collection r = t_collection ?row \<and> t_tokenId r = t_tokenId ?row)
          (upsert_token ?row (tokens w)) = Some ?row"
    by (rule upsert_token_find)
  then have "find (\<lambda>r. t_collection r = toLowerCase c \<and> t_tokenId r = t) (tokens w') = Some ?row"
    by (simp add: w')
  then show ?thesis
    by (intro exI [of _ ?row]) (simp add: w')
qed

lemma updateToken_same_values:
  assumes "updateToken pf cfg c t wa = (Inr (), wa')"
    and "updateToken pf cfg c t wb = (Inr (), wb')"
  shows "\<exists>ra rb.
           find (\<lambda>r. t_collection r = toLowerCase c \<and> t_tokenId r = t) (tokens wa') = Some ra
         \<and> find (\<lambda>r. t_collection r = toLowerCase c \<and> t_tokenId r = t) (tokens wb') = Some rb
         \<and> rb = ra\<lparr>t_updatedAt := t_updatedAt rb\<rparr>"
proof -
  from updateToken_success_decimal [OF assms(1)] obtain n where "BigInt t = Inr n" ..
  from updateToken_run [OF this, of pf cfg c]
  obtain std uri l evs where
    run: "\<And>w. updateToken pf cfg c t w =
         db_upsert_token cfg
           \<lparr>t_collection = toLowerCase c, t_tokenId = t, t_tokenStandard = std,
            t_tokenUri = uri, t_name = l_name l, t_description = l_description l,
            t_image = l_image l, t_animationUrl = l_animationUrl l, t_data = l_data l,
            t_updatedAt = Date_now pf (length (trace w) + length evs) div 1000\<rparr>
           (add_events evs w)"
    and "\<And>w. fst (detectStandard cfg (toLowerCase c) w) = Inr std"
    and "\<And>w. uri = (case fst (fetchTokenUri cfg (toLowerCase c) n std w) of
                       Inl e \<Rightarrow> None | Inr u \<Rightarrow> Some u)"
    and "\<And>w. fst (token_metadata pf cfg uri w) = Inr l"
    by blast
  define row where "row now =
           \<lparr>t_collection = toLowerCase c, t_tokenId = t, t_tokenStandard = std,
            t_tokenUri = uri, t_name = l_name l, t_description = l_description l,
            t_image = l_image l, t_animationUrl = l_animationUrl l, t_data = l_data l,
            t_updatedAt = now\<rparr>" for now
  have key: "t_collection (row now) = toLowerCase c" "t_tokenId (row now) = t" for now
    by (simp_all add: row_def)
  have found: "find (\<lambda>r. t_collection r = toLowerCase c \<and> t_tokenId r = t)
                 (upsert_token (row now) rs) = Some (row now)" for now rs
    using upsert_token_find [of "row now" rs] by (simp add: key)
  from assms(1) have a: "tokens wa' =
      upsert_token (row (Date_now pf (length (trace wa) + length evs) div 1000)) (tokens wa)"
    by (auto simp: run db_upsert_token_run row_def split: if_splits)
  from assms(2) have b: "tokens wb' =
      upsert_token (row (Date_now pf (length (trace wb) + length evs) div 1000)) (tokens wb)"
    by (auto simp: run db_upsert_token_run row_def split: if_splits)
  show ?thesis
    by (intro exI [of _ "row (Date_now pf (length (trace wa) + length evs) div 1000)"]
          exI [of _ "row (Date_now pf (length (trace wb) + length evs) div 1000)"])
      (simp add: a b found, simp add: row_def)
qed


lemma updateCollection_written:
  assumes "updateCollection pf cfg a w = (Inr (), w')"
  shows "\<exists>row. collections w' = upsert_collection row (collections w) \<and> tokens w' = tokens w
           \<and> c_collection row = toLowerCase a
           \<and> c_updatedAt row = Date_now pf (length (trace w') - 1) div 1000
           \<and> last (trace w') = DbUpsertCollection row
           \<and> find (\<lambda>r. c_collection r = toLowerCase a) (collections w') = Some row
           \<and> c_name row =
               (case client_string cfg (ReadContract (toLowerCase a) ''name'' []) of
                  Inr s \<Rightarrow> Some (JStr s)
                | Inl e \<Rightarrow> (case c_data row of
                              Some (JObj kvs) \<Rightarrow> nullish (map_of kvs ''name'')
                            | _ \<Rightarrow> None))
           \<and> c_symbol row =
               (case client_string cfg (ReadContract (toLowerCase a) ''symbol'' []) of
                  Inr s \<Rightarrow> Some (JStr s)
                | Inl e \<Rightarrow> (case c_data row of
                              Some (JObj kvs) \<Rightarrow> nullish (map_of kvs ''symbol'')
                            | _ \<Rightarrow> None))
           \<and> c_data row =
               (case client_string cfg (ReadContract (toLowerCase a) ''contractURI'' []) of
                  Inl e \<Rightarrow> None
                | Inr u \<Rightarrow>
                    if u = [] then None
                    else (case fst (fetchJson pf u (Some (uriOptions cfg)) w) of
                            Inl e \<Rightarrow> None
                          | Inr m \<Rightarrow> to_nullable m))"
proof -
  from updateCollection_run [of pf cfg a]
  obtain std l evs where
    run: "\<And>w. updateCollection pf cfg a w =
         db_upsert_collection cfg
           \<lparr>c_collection = toLowerCase a, c_tokenStandard = std,
            c_name = (case client_string cfg (ReadContract (toLowerCase a) ''name'' []) of
                        Inr s \<Rightarrow> Some (JStr s)
                      | Inl e \<Rightarrow> (case k_data l of
                                    Some (JObj kvs) \<Rightarrow> nullish (map_of kvs ''name'')
                                  | _ \<Rightarrow> None)),
            c_symbol = (case client_string cfg (ReadContract (toLowerCase a) ''symbol'' []) of
                          Inr s \<Rightarrow> Some (JStr s)
                        | Inl e \<Rightarrow> (case k_data l of
                                      Some (JObj kvs) \<Rightarrow> nullish (map_of kvs ''symbol'')
                                    | _ \<Rightarrow> None)),
            c_owner = (case client_string cfg (ReadContract (toLowerCase a) ''owner'' []) of
                         Inr s \<Rightarrow> Some (toLowerCase s) | Inl e \<Rightarrow> None),
            c_contractUri = (case client_string cfg (ReadContract (toLowerCase a) ''contractURI'' []) of
                               Inr s \<Rightarrow> Some s | Inl e \<Rightarrow> None),
            c_description = k_description l, c_image = k_image l, c_data = k_data l,
            c_updatedAt = Date_now pf (length (trace w) + length evs) div 1000\<rparr>
           (add_events evs w)"
    and std: "\<And>w. fst (detectStandard cfg (toLowerCase a) w) = Inr std"
    and l: "\<And>w. fst (collection_metadata pf cfg
                 (case client_string cfg (ReadContract (toLowerCase a) ''contractURI'' []) of
                    Inr s \<Rightarrow> Some s | Inl e \<Rightarrow> None) w) = Inr l"
    by blast
  define row where "row now =
           \<lparr>c_collection = toLowerCase a, c_tokenStandard = std,
            c_name = (case client_string cfg (ReadContract (toLowerCase a) ''name'' []) of
                        Inr s \<Rightarrow> Some (JStr s)
                      | Inl e \<Rightarrow> (case k_data l of
                                    Some (JObj kvs) \<Rightarrow> nullish (map_of kvs ''name'')
                                  | _ \<Rightarrow> None)),
            c_symbol = (case client_string cfg (ReadContract (toLowerCase a) ''symbol'' []) of
                          Inr s \<Rightarrow> Some (JStr s)
                        | Inl e \<Rightarrow> (case k_data l of
                                      Some (JObj kvs) \<Rightarrow> nullish (map_of kvs ''symbol'')
                                    | _ \<Rightarrow> None)),
            c_owner = (case client_string cfg (ReadContract (toLowerCase a) ''owner'' []) of
                         Inr s \<Rightarrow> Some (toLowerCase s) | Inl e \<Rightarrow> None),
            c_contractUri = (case client_string cfg (ReadContract (toLowerCase a) ''contractURI'' []) of
                               Inr s \<Rightarrow> Some s | Inl e \<Rightarrow> None),
            c_description = k_description l, c_image = k_image l, c_data = k_data l,
            c_updatedAt = now\<rparr>" for now
  have key: "c_collection (row now) = toLowerCase a" for now
    by (simp add: row_def)
  have found: "find (\<lambda>r. c_collection r = toLowerCase a)
                 (upsert_collection (row now) rs) = Some (row now)" for now rs
    using upsert_collection_find [of "row now" rs] by (simp add: key)
  have run': "updateCollection pf cfg a w =
         db_upsert_collection cfg (row (Date_now pf (length (trace w) + length evs) div 1000))
           (add_events evs w)" for w
    by (simp only: run row_def)
  let ?row = "row (Date_now pf (length (trace w) + length evs) div 1000)"
  from assms have w': "w' = add_events [DbUpsertCollection ?row]
                          ((add_events evs w)\<lparr>collections := upsert_collection ?row (collections w)\<rparr>)"
    by (simp add: run' db_upsert_collection_run split: if_splits)
  have d: "c_data ?row =
               (case client_string cfg (ReadContract (toLowerCase a) ''contractURI'' []) of
                  Inl e \<Rightarrow> None
                | Inr u \<Rightarrow>
                    if u = [] then None
                    else (case fst (fetchJson pf u (Some (uriOptions cfg)) w) of
                            Inl e \<Rightarrow> None
                          | Inr m \<Rightarrow> to_nullable m))"
    using collection_metadata_data [OF l [of w]]
    by (simp add: row_def truthy_def to_string_def split: sum.splits)
  have cd: "c_data ?row = k_data l"
    by (simp add: row_def)
  have n: "c_name ?row =
               (case client_string cfg (ReadContract (toLowerCase a) ''name'' []) of
                  Inr s \<Rightarrow> Some (JStr s)
                | Inl e \<Rightarrow> (case c_data ?row of
                              Some (JObj kvs) \<Rightarrow> nullish (map_of kvs ''name'')
                            | _ \<Rightarrow> None))"
    unfolding cd by (simp add: row_def)
  have sy: "c_symbol ?row =
               (case client_string cfg (ReadContract (toLowerCase a) ''symbol'' []) of
                  Inr s \<Rightarrow> Some (JStr s)
                | Inl e \<Rightarrow> (case c_data ?row of
                              Some (JObj kvs) \<Rightarrow> nullish (map_of kvs ''symbol'')
                            | _ \<Rightarrow> None))"
    unfolding cd by (simp add: row_def)
  have 1: "collections w' = upsert_collection ?row (collections w)"
    by (simp add: w')
  have 2: "tokens w' = tokens w"
    by (simp add: w')
  have 3: "c_collection ?row = toLowerCase a"
    by (rule key)
  have 4: "c_updatedAt ?row = Date_now pf (length (trace w') - 1) div 1000"
    by (simp add: w' row_def)
  have 5: "last (trace w') = DbUpsertCollection ?row"
    by (simp add: w')
  have 6: "find (\<lambda>r. c_collection r = toLowerCase a) (collections w') = Some ?row"
    by (simp add: 1 found)
  show ?thesis
    by (intro exI [of _ ?row] conjI) (fact 1 2 3 4 5 6 n sy d)+
qed

lemma updateCollection_same_values:
  assumes "updateCollection pf cfg a wa = (Inr (), wa')"
    and "updateCollection pf cfg a wb = (Inr (), wb')"
  shows "\<exists>ra rb.
           find (\<lambda>r. c_collection r = toLowerCase a) (collections wa') = Some ra
         \<and> find (\<lambda>r. c_collection r = toLowerCase a) (collections wb') = Some rb
         \<and> rb = ra\<lparr>c_updatedAt := c_updatedAt rb\<rparr>"
proof -
  from updateCollection_run [of pf cfg a]
  obtain std l evs where
    run: "\<And>w. updateCollection pf cfg a w =
         db_upsert_collection cfg
           \<lparr>c_collection = toLowerCase a, c_tokenStandard = std,
            c_name = (case client_string cfg (ReadContract (toLowerCase a) ''name'' []) of
                        Inr s \<Rightarrow> Some (JStr s)
                      | Inl e \<Rightarrow> (case k_data l of
                                    Some (JObj kvs) \<Rightarrow> nullish (map_of kvs ''name'')
                                  | _ \<Rightarrow> None)),
            c_symbol = (case client_string cfg (ReadContract (toLowerCase a) ''symbol'' []) of
                          Inr s \<Rightarrow> Some (JStr s)
                        | Inl e \<Rightarrow> (case k_data l of
                                      Some (JObj kvs) \<Rightarrow> nullish (map_of kvs ''symbol'')
                                    | _ \<Rightarrow> None)),
            c_owner = (case client_string cfg (ReadContract (toLowerCase a) ''owner'' []) of
                         Inr s \<Rightarrow> Some (toLowerCase s) | Inl e \<Rightarrow> None),
            c_contractUri = (case client_string cfg (ReadContract (toLowerCase a) ''contractURI'' []) of
                               Inr s \<Rightarrow> Some s | Inl e \<Rightarrow> None),
            c_description = k_description l, c_image = k_image l, c_data = k_data l,
            c_updatedAt = Date_now pf (length (trace w) + length evs) div 1000\<rparr>
           (add_events evs w)"
    and std: "\<And>w. fst (detectStandard cfg (toLowerCase a) w) = Inr std"
    and l: "\<And>w. fst (collection_metadata pf cfg
                 (case client_string cfg (ReadContract (toLowerCase a) ''contractURI'' []) of
                    Inr s \<Rightarrow> Some s | Inl e \<Rightarrow> None) w) = Inr l"
    by blast
  define row where "row now =
           \<lparr>c_collection = toLowerCase a, c_tokenStandard = std,
            c_name = (case client_string cfg (ReadContract (toLowerCase a) ''name'' []) of
                        Inr s \<Rightarrow> Some (JStr s)
                      | Inl e \<Rightarrow> (case k_data l of
                                    Some (JObj kvs) \<Rightarrow> nullish (map_of kvs ''name'')
                                  | _ \<Rightarrow> None)),
            c_symbol = (case client_string cfg (ReadContract (toLowerCase a) ''symbol'' []) of
                          Inr s \<Rightarrow> Some (JStr s)
                        | Inl e \<Rightarrow> (case k_data l of
                                      Some (JObj kvs) \<Rightarrow> nullish (map_of kvs ''symbol'')
                                    | _ \<Rightarrow> None)),
            c_owner = (case client_string cfg (ReadContract (toLowerCase a) ''owner'' []) of
                         Inr s \<Rightarrow> Some (toLowerCase s) | Inl e \<Rightarrow> None),
            c_contractUri = (case client_string cfg (ReadContract (toLowerCase a) ''contractURI'' []) of
                               Inr s \<Rightarrow> Some s | Inl e \<Rightarrow> None),
            c_description = k_description l, c_image = k_image l, c_data = k_data l,
            c_updatedAt = now\<rparr>" for now
  have key: "c_collection (row now) = toLowerCase a" for now
    by (simp add: row_def)
  have found: "find (\<lambda>r. c_collection r = toLowerCase a)
                 (upsert_collection (row now) rs) = Some (row now)" for now rs
    using upsert_collection_find [of "row now" rs] by (simp add: key)
  have run': "updateCollection pf cfg a w =
         db_upsert_collection cfg (row (Date_now pf (length (trace w) + length evs) div 1000))
           (add_events evs w)" for w
    by (simp only: run row_def)
  from assms(1) have a: "collections wa' =
      upsert_collection (row (Date_now pf (length (trace wa) + length evs) div 1000)) (collections wa)"
    by (auto simp: run' db_upsert_collection_run split: if_splits)
  from assms(2) have b: "collections wb' =
      upsert_collection (row (Date_now pf (length (trace wb) + length evs) div 1000)) (collections wb)"
    by (auto simp: run' db_upsert_collection_run split: if_splits)
  show ?thesis
    by (intro exI [of _ "row (Date_now pf (length (trace wa) + length evs) div 1000)"]
          exI [of _ "row (Date_now pf (length (trace wb) + length evs) div 1000)"])
      (simp add: a b found, simp add: row_def)
qed

section \<open>Name and symbol of a collection\<close>

text \<open>
  C8. After a collection refresh whose write succeeded, the stored name is the
  answer of the on-chain \<^verbatim>\<open>name()\<close> whenever that read succeeded, whatever the
  document of the contract URI says; only when the read failed is it the \<^verbatim>\<open>name\<close>
  member of the stored document (absent when there is no document or no such
  member). The same holds of the symbol. The stored document is the one fetched
  from a nonempty contract URI.
\<close>

theorem collection_name_prefers_chain:
  "updateCollection pf cfg a w = (Inr (), w') \<longrightarrow>
     (\<exists>row. find (\<lambda>r. c_collection r = toLowerCase a) (collections w') = Some row
        \<and> c_name row =
            (case client_string cfg (ReadContract (toLowerCase a) ''name'' []) of
               Inr s \<Rightarrow> Some (JStr s)
             | Inl e \<Rightarrow> (case c_data row of
                           Some (JObj kvs) \<Rightarrow> nullish (map_of kvs ''name'')
                         | _ \<Rightarrow> None))
        \<and> c_symbol row =
            (case client_string cfg (ReadContract (toLowerCase a) ''symbol'' []) of
               Inr s \<Rightarrow> Some (JStr s)
             | Inl e \<Rightarrow> (case c_data row of
                           Some (JObj kvs) \<Rightarrow> nullish (map_of kvs ''symbol'')
                         | _ \<Rightarrow> None))
        \<and> c_data row =
            (case client_string cfg (ReadContract (toLowerCase a) ''contractURI'' []) of
               Inl e \<Rightarrow> None
             | Inr u \<Rightarrow>
                 if u = [] then None
                 else (case fst (fetchJson pf u (Some (uriOptions cfg)) w) of
                         Inl e \<Rightarrow> None
                       | Inr m \<Rightarrow> to_nullable m)))"
proof
  assume "updateCollection pf cfg a w = (Inr (), w')"
  from updateCollection_written [OF this] obtain row where
    "find (\<lambda>r. c_collection r = toLowerCase a) (collections w') = Some row"
    "c_name row =
            (case client_string cfg (ReadContract (toLowerCase a) ''name'' []) of
               Inr s \<Rightarrow> Some (JStr s)
             | Inl e \<Rightarrow> (case c_data row of
                           Some (JObj kvs) \<Rightarrow> nullish (map_of kvs ''name'')
                         | _ \<Rightarrow> None))"
    "c_symbol row =
            (case client_string cfg (ReadContract (toLowerCase a) ''symbol'' []) of
               Inr s \<Rightarrow> Some (JStr s)
             | Inl e \<Rightarrow> (case c_data row of
                           Some (JObj kvs) \<Rightarrow> nullish (map_of kvs ''symbol'')
                         | _ \<Rightarrow> None))"
    "c_data row =
            (case client_string cfg (ReadContract (toLowerCase a) ''contractURI'' []) of
               Inl e \<Rightarrow> None
             | Inr u \<Rightarrow>
                 if u = [] then None
                 else (case fst (fetchJson pf u (Some (uriOptions cfg)) w) of
                         Inl e \<Rightarrow> None
                       | Inr m \<Rightarrow> to_nullable m))"
    by blast
  then show "\<exists>row. find (\<lambda>r. c_collection r = toLowerCase a) (collections w') = Some row
        \<and> c_name row =
            (case client_string cfg (ReadContract (toLowerCase a) ''name'' []) of
               Inr s \<Rightarrow> Some (JStr s)
             | Inl e \<Rightarrow> (case c_data row of
                           Some (JObj kvs) \<Rightarrow> nullish (map_of kvs ''name'')
                         | _ \<Rightarrow> None))
        \<and> c_symbol row =
            (case client_string cfg (ReadContract (toLowerCase a) ''symbol'' []) of
               Inr s \<Rightarrow> Some (JStr s)
             | Inl e \<Rightarrow> (case c_data row of
                           Some (JObj kvs) \<Rightarrow> nullish (map_of kvs ''symbol'')
                         | _ \<Rightarrow> None))
        \<and> c_data row =
            (case client_string cfg (ReadContract (toLowerCase a) ''contractURI'' []) of
               Inl e \<Rightarrow> None
             | Inr u \<Rightarrow>
                 if u = [] then None
                 else (case fst (fetchJson pf u (Some (uriOptions cfg)) w) of
                         Inl e \<Rightarrow> None
                       | Inr m \<Rightarrow> to_nullable m))"
    by (intro exI [of _ row] conjI)
qed

text \<open>
  On the example collaborators \<^verbatim>\<open>name()\<close> answers \<^verbatim>\<open>Chain name\<close> and
  \<^verbatim>\<open>symbol()\<close> fails, and the document has the name \<^verbatim>\<open>Doc name\<close> and the symbol
  \<^verbatim>\<open>DOC\<close>: the stored name is the chain's, the stored symbol the document's.
\<close>

theorem collection_name_prefers_chain_witness:
  "fst (updateCollection demo_platform demo_config ''0xABC'' (collection_world old_collection))
     = Inr ()
   \<and> find (\<lambda>r. c_collection r = ''0xabc'')
        (collections (snd (updateCollection demo_platform demo_config ''0xABC''
                             (collection_world old_collection))))
     = Some \<lparr>c_collection = ''0xabc'', c_tokenStandard = Erc1155,
             c_name = Some (JStr ''Chain name''), c_symbol = Some (JStr ''DOC''),
             c_owner = None, c_contractUri = Some ''ipfs://meta'',
             c_description = Some (JStr ''A document''), c_image = Some (JStr ''ipfs://img''),
             c_data = Some demo_doc, c_updatedAt = 1700000000\<rparr>"
  using collection_name_prefers_chain [of demo_platform demo_config "''0xABC''"
      "collection_world old_collection"
      "snd (updateCollection demo_platform demo_config ''0xABC'' (collection_world old_collection))"]
  by (simp add: string_defs uri_defs io_defs service_defs demo_defs Let_def)

section \<open>The write of a refresh\<close>

lemma updateToken_written_imp:
  "updateToken pf cfg c t w = (Inr (), w') \<longrightarrow>
     (\<exists>row. tokens w' = upsert_token row (tokens w) \<and> collections w' = collections w
        \<and> t_collection row = toLowerCase c \<and> t_tokenId row = t
        \<and> t_updatedAt row = Date_now pf (length (trace w') - 1) div 1000
        \<and> last (trace w') = DbUpsertToken row
        \<and> find (\<lambda>r. t_collection r = toLowerCase c \<and> t_tokenId r = t) (tokens w') = Some row)"
  by (intro impI, rule updateToken_written)

lemma updateToken_same_values_imp:
  "updateToken pf cfg c t wa = (Inr (), wa') \<and> updateToken pf cfg c t wb = (Inr (), wb') \<longrightarrow>
     (\<exists>ra rb.
        find (\<lambda>r. t_collection r = toLowerCase c \<and> t_tokenId r = t) (tokens wa') = Some ra
        \<and> find (\<lambda>r. t_collection r = toLowerCase c \<and> t_tokenId r = t) (tokens wb') = Some rb
        \<and> rb = ra\<lparr>t_updatedAt := t_updatedAt rb\<rparr>)"
  by (intro impI, elim conjE, rule updateToken_same_values)

lemma updateCollection_written_imp:
  "updateCollection pf cfg a w = (Inr (), w') \<longrightarrow>
     (\<exists>row. collections w' = upsert_collection row (collections w) \<and> tokens w' = tokens w
        \<and> c_collection row = toLowerCase a
        \<and> c_updatedAt row = Date_now pf (length (trace w') - 1) div 1000
        \<and> last (trace w') = DbUpsertCollection row
        \<and> find (\<lambda>r. c_collection r = toLowerCase a) (collections w') = Some row)"
proof
  assume "updateCollection pf cfg a w = (Inr (), w')"
  from updateCollection_written [OF this] obtain row where
    "collections w' = upsert_collection row (collections w)" "tokens w' = tokens w"
    "c_collection row = toLowerCase a"
    "c_updatedAt row = Date_now pf (length (trace w') - 1) div 1000"
    "last (trace w') = DbUpsertCollection row"
    "find (\<lambda>r. c_collection r = toLowerCase a) (collections w') = Some row"
    by blast
  then show "\<exists>row. collections w' = upsert_collection row (collections w) \<and> tokens w' = tokens w
        \<and> c_collection row = toLowerCase a
        \<and> c_updatedAt row = Date_now pf (length (trace w') - 1) div 1000
        \<and> last (trace w') = DbUpsertCollection row
        \<and> find (\<lambda>r. c_collection r = toLowerCase a) (collections w') = Some row"
    by (intro exI [of _ row] conjI)
qed

lemma updateCollection_same_values_imp:
  "updateCollection pf cfg a wa = (Inr (), wa') \<and> updateCollection pf cfg a wb = (Inr (), wb') \<longrightarrow>
     (\<exists>ra rb.
        find (\<lambda>r. c_collection r = toLowerCase a) (collections wa') = Some ra
        \<and> find (\<lambda>r. c_collection r = toLowerCase a) (collections wb') = Some rb
        \<and> rb = ra\<lparr>c_updatedAt := c_updatedAt rb\<rparr>)"
  by (intro impI, elim conjE, rule updateCollection_same_values)

lemma upsert_token_find_other_imp:
  "(kc, kt) \<noteq> (t_collection v, t_tokenId v) \<longrightarrow>
     find (\<lambda>r. t_collection r = kc \<and> t_tokenId r = kt) (upsert_token v rs)
       = find (\<lambda>r. t_collection r = kc \<and> t_tokenId r = kt) rs"
  by (intro impI, rule upsert_token_find_other)

lemma upsert_collection_find_other_imp:
  "k \<noteq> c_collection cv \<longrightarrow>
     find (\<lambda>r. c_collection r = k) (upsert_collection cv crs)
       = find (\<lambda>r. c_collection r = k) crs"
  by (intro impI, rule upsert_collection_find_other)

text \<open>
  C9. The upsert of a row \<open>v\<close> leaves the key columns of every stored row as they
  were (adding the key of \<open>v\<close> when it was not there), and afterwards the row stored
  under the key of \<open>v\<close> is \<open>v\<close> itself: every other column has the value of \<open>v\<close>,
  absent ones included, and nothing of the old row is kept; the rows stored under
  other keys are untouched. A token or collection
  refresh whose write succeeded has upserted one row for its key, its \<^verbatim>\<open>updatedAt\<close>
  being the clock read just before the write, in seconds; the other table is
  unchanged. Two successful refreshes of one key against the same collaborators
  store rows that are equal apart from \<^verbatim>\<open>updatedAt\<close>.
\<close>

theorem refresh_write_replaces_row:
  "find (\<lambda>r. t_collection r = t_collection v \<and> t_tokenId r = t_tokenId v) (upsert_token v rs)
     = Some v
   \<and> map (\<lambda>r. (t_collection r, t_tokenId r)) (upsert_token v rs) =
       (if (t_collection v, t_tokenId v) \<in> set (map (\<lambda>r. (t_collection r, t_tokenId r)) rs)
        then map (\<lambda>r. (t_collection r, t_tokenId r)) rs
        else map (\<lambda>r. (t_collection r, t_tokenId r)) rs @ [(t_collection v, t_tokenId v)])
   \<and> ((kc, kt) \<noteq> (t_collection v, t_tokenId v) \<longrightarrow>
       find (\<lambda>r. t_collection r = kc \<and> t_tokenId r = kt) (upsert_token v rs)
         = find (\<lambda>r. t_collection r = kc \<and> t_tokenId r = kt) rs)
   \<and> (updateToken pf cfg c t w = (Inr (), w') \<longrightarrow>
       (\<exists>row. tokens w' = upsert_token row (tokens w) \<and> collections w' = collections w
          \<and> t_collection row = toLowerCase c \<and> t_tokenId row = t
          \<and> t_updatedAt row = Date_now pf (length (trace w') - 1) div 1000
          \<and> last (trace w') = DbUpsertToken row
          \<and> find (\<lambda>r. t_collection r = toLowerCase c \<and> t_tokenId r = t) (tokens w') = Some row))
   \<and> (updateToken pf cfg c t wa = (Inr (), wa') \<and> updateToken pf cfg c t wb = (Inr (), wb') \<longrightarrow>
       (\<exists>ra rb.
          find (\<lambda>r. t_collection r = toLowerCase c \<and> t_tokenId r = t) (tokens wa') = Some ra
          \<and> find (\<lambda>r. t_collection r = toLowerCase c \<and> t_tokenId r = t) (tokens wb') = Some rb
          \<and> rb = ra\<lparr>t_updatedAt := t_updatedAt rb\<rparr>))
   \<and> find (\<lambda>r. c_collection r = c_collection cv) (upsert_collection cv crs) = Some cv
   \<and> map c_collection (upsert_collection cv crs) =
       (if c_collection cv \<in> set (map c_collection crs) then map c_collection crs
        else map c_collection crs @ [c_collection cv])
   \<and> (k \<noteq> c_collection cv \<longrightarrow>
       find (\<lambda>r. c_collection r = k) (upsert_collection cv crs)
         = find (\<lambda>r. c_collection r = k) crs)
   \<and> (updateCollection pf cfg a w = (Inr (), w') \<longrightarrow>
       (\<exists>row. collections w' = upsert_collection row (collections w) \<and> tokens w' = tokens w
          \<and> c_collection row = toLowerCase a
          \<and> c_updatedAt row = Date_now pf (length (trace w') - 1) div 1000
          \<and> last (trace w') = DbUpsertCollection row
          \<and> find (\<lambda>r. c_collection r = toLowerCase a) (collections w') = Some row))
   \<and> (updateCollection pf cfg a wa = (Inr (), wa') \<and> updateCollection pf cfg a wb = (Inr (), wb') \<longrightarrow>
       (\<exists>ra rb.
          find (\<lambda>r. c_collection r = toLowerCase a) (collections wa') = Some ra
          \<and> find (\<lambda>r. c_collection r = toLowerCase a) (collections wb') = Some rb
          \<and> rb = ra\<lparr>c_updatedAt := c_updatedAt rb\<rparr>))"
  by (intro conjI)
    (rule upsert_token_find upsert_token_keys upsert_token_find_other_imp
       updateToken_written_imp updateToken_same_values_imp
       upsert_collection_find upsert_collection_keys upsert_collection_find_other_imp
       updateCollection_written_imp updateCollection_same_values_imp)+

text \<open>
  The stored token row of \<^verbatim>\<open>0xabc\<close>, \<^verbatim>\<open>7\<close> has a URI, a name, an image and a
  document. A refresh against the chain on which every call fails replaces it by the
  row with the same key, the standard Unknown and every other field absent; a second
  refresh stores the same row. The collection row of \<^verbatim>\<open>0xabc\<close> has an owner; a
  refresh against the example chain, whose \<^verbatim>\<open>owner()\<close> fails, stores no owner, and
  a second refresh stores the same row.
\<close>

theorem refresh_write_replaces_row_witness:
  "tokens (snd (updateToken demo_platform dead_chain ''0xABC'' ''7'' (token_world old_token)))
     = [\<lparr>t_collection = ''0xabc'', t_tokenId = ''7'', t_tokenStandard = Unknown,
         t_tokenUri = None, t_name = None, t_description = None, t_image = None,
         t_animationUrl = None, t_data = None, t_updatedAt = 1700000000\<rparr>]
   \<and> tokens (snd (updateToken demo_platform dead_chain ''0xABC'' ''7''
                (snd (updateToken demo_platform dead_chain ''0xABC'' ''7'' (token_world old_token)))))
     = [\<lparr>t_collection = ''0xabc'', t_tokenId = ''7'', t_tokenStandard = Unknown,
         t_tokenUri = None, t_name = None, t_description = None, t_image = None,
         t_animationUrl = None, t_data = None, t_updatedAt = 1700000000\<rparr>]
   \<and> collections (snd (updateCollection demo_platform demo_config ''0xABC''
                          (collection_world old_collection)))
     = [\<lparr>c_collection = ''0xabc'', c_tokenStandard = Erc1155,
         c_name = Some (JStr ''Chain name''), c_symbol = Some (JStr ''DOC''),
         c_owner = None, c_contractUri = Some ''ipfs://meta'',
         c_description = Some (JStr ''A document''), c_image = Some (JStr ''ipfs://img''),
         c_data = Some demo_doc, c_updatedAt = 1700000000\<rparr>]
   \<and> collections (snd (updateCollection demo_platform demo_config ''0xABC''
                (snd (updateCollection demo_platform demo_config ''0xABC''
                          (collection_world old_collection)))))
     = [\<lparr>c_collection = ''0xabc'', c_tokenStandard = Erc1155,
         c_name = Some (JStr ''Chain name''), c_symbol = Some (JStr ''DOC''),
         c_owner = None, c_contractUri = Some ''ipfs://meta'',
         c_description = Some (JStr ''A document''), c_image = Some (JStr ''ipfs://img''),
         c_data = Some demo_doc, c_updatedAt = 1700000000\<rparr>]"
  using refresh_write_replaces_row [where v = old_token and rs = "[]" and kc = "''0xdef''"
      and kt = "''7''" and pf = demo_platform and cfg = dead_chain and c = "''0xABC''"
      and t = "''7''" and w = "token_world old_token"
      and w' = "snd (updateToken demo_platform dead_chain ''0xABC'' ''7'' (token_world old_token))"
      and wa = "token_world old_token"
      and wa' = "snd (updateToken demo_platform dead_chain ''0xABC'' ''7'' (token_world old_token))"
      and wb = "snd (updateToken demo_platform dead_chain ''0xABC'' ''7'' (token_world old_token))"
      and wb' = "snd (updateToken demo_platform dead_chain ''0xABC'' ''7''
                (snd (updateToken demo_platform dead_chain ''0xABC'' ''7'' (token_world old_token))))"
      and cv = old_collection and crs = "[]" and k = "''0xdef''" and a = "''0xABC''"]
  by (simp add: string_defs uri_defs io_defs service_defs demo_defs Let_def)

section \<open>Inline documents\<close>

text \<open>
  C5, on the inputs where the code departs from it. \<^verbatim>\<open>fetchJson\<close> takes as payload
  of a \<^verbatim>\<open>data:\<close> URI the text between the first and the second comma. The base64
  URI with the payload \<^verbatim>\<open>eyJhIjoxfQ==\<close> is decoded and parsed with no call to
  \<^verbatim>\<open>fetch\<close>. For the
  percent-encoded document \<^verbatim>\<open>{"a":1,"b":2}\<close>, whose text has a comma, the parser is
  given \<^verbatim>\<open>{"a":1\<close> only: on the example platform, which parses the whole document,
  the result is a parse error. A base64 URI with a media type parameter before
  \<^verbatim>\<open>;base64\<close> is not base64-decoded but percent-decoded.
\<close>

theorem fetchJson_payload_is_second_segment:
  "fetchJson pf ''data:application/json;base64,eyJhIjoxfQ=='' options w
     = (sum_bind (atob pf ''eyJhIjoxfQ=='') (JSON_parse pf), w)
   \<and> fetchJson pf ''data:application/json,{\"a\":1,\"b\":2}'' options w
     = (sum_bind (decodeURIComponent pf ''{\"a\":1'') (JSON_parse pf), w)
   \<and> fetchJson pf ''data:application/json;charset=utf-8;base64,eyJhIjoxfQ=='' options w
     = (sum_bind (decodeURIComponent pf ''eyJhIjoxfQ=='') (JSON_parse pf), w)
   \<and> fetchJson demo_platform ''data:application/json;base64,eyJhIjoxfQ=='' options w
     = (Inr (JObj [(''a'', JNum 1)]), w)
   \<and> JSON_parse demo_platform ''{\"a\":1,\"b\":2}'' = Inr (JObj [(''a'', JNum 1), (''b'', JNum 2)])
   \<and> fetchJson demo_platform ''data:application/json,{\"a\":1,\"b\":2}'' options w
     = (Inl ParseError, w)"
  by (simp add: fetchJson_def resolveUri_def startsWith_def io_lift_def to_string_def
      sum_bind_def demo_platform_def Let_def)

end
